theory Spec2Isabelle
  imports Main "HOL-Library.Word"
begin

unbundle bit_operations_syntax

section \<open>Abilities, results and thrown values\<close>

text \<open>
  Every ability of the repository is a pair of handlers, \<open>precheck\<close> and \<open>execute\<close>, that end
  by calling \<open>succeed(data)\<close> or \<open>fail(payload)\<close> of their context. A handler's outcome is
  therefore a value of \<open>ability_result\<close>. A JavaScript \<open>throw\<close> (or a rejected promise) is a
  value of \<open>thrown\<close>: the handlers only ever ask whether it is an \<open>Error\<close> and, if so, read its
  message. A call that can throw returns \<open>thrown + 'a\<close>.

  The systems outside the repository (the wallet reached over Nostr Wallet Connect, the
  invoice decoder, the JSON-RPC provider, the signing service, the clock) are a record of
  responses, the \<^emph>\<open>world\<close>, handed to each handler; the requests a handler sends are returned
  as a list next to its result.
\<close>

datatype ('s, 'f) ability_result = Success 's | Failure 'f

datatype thrown = JsError string | NonError

text \<open>\<open>error instanceof Error ? error.message : fallback\<close>\<close>

fun message_or :: "thrown \<Rightarrow> string \<Rightarrow> string" where
  "message_or (JsError m) fallback = m"
| "message_or NonError fallback = fallback"

text \<open>\<open>String.prototype.startsWith\<close>, \<open>includes\<close> for a one-character needle, and
  \<open>replace\<close> with a string pattern (which replaces the first occurrence only).\<close>

definition startsWith :: "string \<Rightarrow> string \<Rightarrow> bool" where
  "startsWith s p = (take (length p) s = p)"

definition includes_char :: "string \<Rightarrow> char \<Rightarrow> bool" where
  "includes_char s c = (c \<in> set s)"

fun replace_first :: "string \<Rightarrow> string \<Rightarrow> string \<Rightarrow> string" where
  "replace_first pat rep [] = (if pat = [] then rep else [])"
| "replace_first pat rep (c # cs) =
     (if startsWith (c # cs) pat then rep @ drop (length pat) (c # cs)
      else c # replace_first pat rep cs)"

text \<open>Template literals print integers in decimal. (A JavaScript number of 22 digits or more
  prints in exponent form; the amounts in satoshis, chain ids and clock readings printed by
  the abilities are far smaller. \<open>BigNumber.toString()\<close> prints every digit at any size.)\<close>

definition digit_char :: "nat \<Rightarrow> char" where
  "digit_char d = ''0123456789'' ! d"

function show_nat :: "nat \<Rightarrow> string" where
  "show_nat n = (if n < 10 then [digit_char n] else show_nat (n div 10) @ [digit_char (n mod 10)])"
  by pat_completeness auto
termination
  by (relation "measure id") auto

declare show_nat.simps [simp del]

definition show_int :: "int \<Rightarrow> string" where
  "show_int i = (if i < 0 then CHR ''-'' # show_nat (nat (- i)) else show_nat (nat i))"

text \<open>A string is falsy when it is missing (\<open>null\<close>, \<open>undefined\<close>) or empty.\<close>

fun truthy_str :: "string option \<Rightarrow> bool" where
  "truthy_str None = False"
| "truthy_str (Some s) = (s \<noteq> [])"

text \<open>The delegation handed to every handler: the address and public key of the key pair
  on whose behalf the ability acts.\<close>

record delegatorPkpInfo =
  ethAddress :: string
  publicKey :: string

section \<open>Invoice Commitment Step: the lightning-invoice ability\<close>

text \<open>\<open>packages/ability-lightning-invoice\<close>: \<open>schemas.ts\<close> and \<open>vincent-ability.ts\<close>.\<close>

datatype invoice_error =
  NWC_CONNECTION_FAILED | INVALID_AMOUNT | INVOICE_CREATION_FAILED | NWC_NOT_SUPPORTED
  | LIQUIDITY_INSUFFICIENT

record li_params =
  li_amountSat :: int
  li_description :: "string option"
  li_expirySec :: int
  li_nwcUri :: string

record li_precheck_success =
  lps_amountSat :: int
  lps_canReceive :: bool
  lps_estimatedFee :: int

record li_fail =
  lf_error :: string
  lf_reason :: invoice_error

record li_execute_success =
  les_paymentRequest :: string
  les_paymentHash :: string
  les_amountSat :: int
  les_description :: string
  les_expiresAt :: int

text \<open>What \<open>new URL(s)\<close> yields: the fields the handler reads.\<close>

record url =
  protocol :: string
  hostname :: string
  pathname :: string
  searchParams :: "(string \<times> string) list"

record nwc_info =
  info_alias :: "string option"
  info_pubkey :: "string option"

record address_invoice =
  ai_paymentRequest :: string
  ai_paymentHash :: string

record make_invoice_response =
  mi_invoice :: string
  mi_payment_hash :: string

text \<open>The requests the invoice ability can send to the payment rail.\<close>

datatype rail_call =
  GetInfo
  | LnAddressFetch string
  | RequestInvoice string int string
  | MakeInvoice int string

record li_world =
  URL_new :: "string \<Rightarrow> thrown + url"
  NWCClient_new :: "string \<Rightarrow> thrown + unit"
  getInfo :: "thrown + nwc_info"
  LightningAddress_fetch :: "string \<Rightarrow> thrown + unit"
  requestInvoice :: "string \<Rightarrow> int \<Rightarrow> string \<Rightarrow> thrown + address_invoice"
  makeInvoice :: "int \<Rightarrow> string \<Rightarrow> thrown + make_invoice_response"
  li_Date_now :: int

text \<open>
  \<open>precheck\<close> (lines 49-96). Nothing in its \<open>try\<close> block can throw for parameters of the
  declared types, so the \<open>catch\<close> branch has no counterpart here. The handler receives the
  world like every other handler; the list of rail requests it returns is what it sent.
\<close>

definition li_precheck ::
  "li_world \<Rightarrow> li_params \<Rightarrow> (li_precheck_success, li_fail) ability_result \<times> rail_call list" where
  "li_precheck w p =
     (if li_amountSat p \<le> 0 then
        (Failure \<lparr>lf_error = ''Amount must be greater than 0'', lf_reason = INVALID_AMOUNT\<rparr>, [])
      else if \<not> startsWith (li_nwcUri p) ''nostr+walletconnect://'' then
        (Failure \<lparr>lf_error = ''Invalid NWC URI format. Must start with nostr+walletconnect://'',
                  lf_reason = NWC_CONNECTION_FAILED\<rparr>, [])
      else if li_expirySec p < 60 then
        (Failure \<lparr>lf_error = ''Expiry must be at least 60 seconds'', lf_reason = INVALID_AMOUNT\<rparr>, [])
      else
        (Success \<lparr>lps_amountSat = li_amountSat p, lps_canReceive = True, lps_estimatedFee = 0\<rparr>, []))"

text \<open>\<open>description || `HLV Protocol rebalance: ${amountSat} sats`\<close>\<close>

definition li_description_or_default :: "li_params \<Rightarrow> string" where
  "li_description_or_default p =
     (case li_description p of
        Some d \<Rightarrow> if d \<noteq> [] then d else ''HLV Protocol rebalance: '' @ show_int (li_amountSat p) @ '' sats''
      | None \<Rightarrow> ''HLV Protocol rebalance: '' @ show_int (li_amountSat p) @ '' sats'')"

text \<open>The inner \<open>try\<close> of \<open>execute\<close> (lines 173-197): \<open>makeInvoice\<close>, whose failure is
  re-thrown as a new \<open>Error\<close>.\<close>

definition li_make_invoice ::
  "li_world \<Rightarrow> li_params \<Rightarrow> (thrown + li_execute_success) \<times> rail_call list" where
  "li_make_invoice w p =
     (let d = li_description_or_default p; call = MakeInvoice (li_amountSat p * 1000) d in
      case makeInvoice w (li_amountSat p * 1000) d of
        Inl e \<Rightarrow> (Inl (JsError (''Failed to create invoice via NWC: '' @ message_or e ''Unknown error'')), [call])
      | Inr r \<Rightarrow>
          (Inr \<lparr>les_paymentRequest = mi_invoice r,
                les_paymentHash = ''0x'' @ mi_payment_hash r,
                les_amountSat = li_amountSat p,
                les_description = d,
                les_expiresAt = li_Date_now w div 1000 + li_expirySec p\<rparr>, [call]))"

text \<open>The Lightning Address branch of \<open>execute\<close> (lines 143-168).\<close>

definition li_address_invoice ::
  "li_world \<Rightarrow> li_params \<Rightarrow> string \<Rightarrow> (thrown + li_execute_success) \<times> rail_call list" where
  "li_address_invoice w p addr =
     (let d = li_description_or_default p in
      case LightningAddress_fetch w addr of
        Inl e \<Rightarrow> (Inl e, [LnAddressFetch addr])
      | Inr _ \<Rightarrow>
          (case requestInvoice w addr (li_amountSat p) d of
             Inl e \<Rightarrow> (Inl e, [LnAddressFetch addr, RequestInvoice addr (li_amountSat p) d])
           | Inr i \<Rightarrow>
               (Inr \<lparr>les_paymentRequest = ai_paymentRequest i,
                     les_paymentHash = ai_paymentHash i,
                     les_amountSat = li_amountSat p,
                     les_description = d,
                     les_expiresAt = li_Date_now w div 1000 + li_expirySec p\<rparr>,
                [LnAddressFetch addr, RequestInvoice addr (li_amountSat p) d])))"

text \<open>The body of the outer \<open>try\<close> of \<open>execute\<close> (lines 103-197).\<close>

definition li_execute_body ::
  "li_world \<Rightarrow> li_params \<Rightarrow> (thrown + li_execute_success) \<times> rail_call list" where
  "li_execute_body w p =
     (case URL_new w (li_nwcUri p) of
        Inl e \<Rightarrow> (Inl e, [])
      | Inr nwcUrl \<Rightarrow>
          if protocol nwcUrl \<noteq> ''nostr+walletconnect:'' then
            (Inl (JsError ''Invalid NWC URI protocol''), [])
          else
            let walletPubkey =
                  (if hostname nwcUrl \<noteq> [] then hostname nwcUrl
                   else replace_first ''//'' [] (pathname nwcUrl));
                relayUrl = map_of (searchParams nwcUrl) ''relay'';
                secret = map_of (searchParams nwcUrl) ''secret''
            in
            if walletPubkey = [] \<or> \<not> truthy_str relayUrl \<or> \<not> truthy_str secret then
              (Inl (JsError ''NWC URI missing required parameters''), [])
            else
              (case NWCClient_new w (li_nwcUri p) of
                 Inl e \<Rightarrow> (Inl e, [])
               | Inr _ \<Rightarrow>
                   (case getInfo w of
                      Inl e \<Rightarrow> (Inl e, [GetInfo])
                    | Inr info \<Rightarrow>
                        let lud16 = map_of (searchParams nwcUrl) ''lud16'';
                            lightningAddress = (if truthy_str lud16 then lud16 else info_alias info)
                        in
                        (case lightningAddress of
                           Some addr \<Rightarrow>
                             if addr \<noteq> [] \<and> includes_char addr CHR ''@'' then
                               (let (r, calls) = li_address_invoice w p addr in (r, GetInfo # calls))
                             else
                               (let (r, calls) = li_make_invoice w p in (r, GetInfo # calls))
                         | None \<Rightarrow>
                             (let (r, calls) = li_make_invoice w p in (r, GetInfo # calls))))))"

text \<open>\<open>execute\<close> (lines 101-205): the body, and the one \<open>catch\<close> that turns every throw into
  \<open>fail\<close> with the reason \<open>INVOICE_CREATION_FAILED\<close>.\<close>

definition li_execute ::
  "li_world \<Rightarrow> delegatorPkpInfo \<Rightarrow> li_params \<Rightarrow>
     (li_execute_success, li_fail) ability_result \<times> rail_call list" where
  "li_execute w delegation p =
     (case li_execute_body w p of
        (Inr s, calls) \<Rightarrow> (Success s, calls)
      | (Inl e, calls) \<Rightarrow>
          (Failure \<lparr>lf_error = message_or e ''Unknown execution error'',
                    lf_reason = INVOICE_CREATION_FAILED\<rparr>, calls))"

text \<open>A world for the examples: \<open>new URL\<close> on the descriptors used by the repository's unit
  tests (\<open>vincent-ability.spec.ts\<close> of the invoice ability), a wallet without a Lightning
  Address, and a rail that creates the invoice asked for.\<close>

definition example_URL_new :: "string \<Rightarrow> thrown + url" where
  "example_URL_new s =
     (if s = ''https://invalid-protocol.com'' then
        Inr \<lparr>protocol = ''https:'', hostname = ''invalid-protocol.com'', pathname = ''/'',
             searchParams = []\<rparr>
      else if s = ''nostr+walletconnect://test-pubkey'' then
        Inr \<lparr>protocol = ''nostr+walletconnect:'', hostname = ''test-pubkey'', pathname = [],
             searchParams = []\<rparr>
      else if s = ''nostr+walletconnect://test-pubkey?relay=wss://relay.test.com&secret=test-secret'' then
        Inr \<lparr>protocol = ''nostr+walletconnect:'', hostname = ''test-pubkey'', pathname = [],
             searchParams = [(''relay'', ''wss://relay.test.com''), (''secret'', ''test-secret'')]\<rparr>
      else Inl (JsError ''Invalid URL''))"

definition example_li_world :: li_world where
  "example_li_world =
     \<lparr>URL_new = example_URL_new,
      NWCClient_new = (\<lambda>_. Inr ()),
      getInfo = Inr \<lparr>info_alias = Some ''test-wallet'', info_pubkey = None\<rparr>,
      LightningAddress_fetch = (\<lambda>_. Inl (JsError ''not a lightning address'')),
      requestInvoice = (\<lambda>_ _ _. Inl (JsError ''not a lightning address'')),
      makeInvoice = (\<lambda>_ _. Inr \<lparr>mi_invoice = ''lnbc10u1example'',
                                 mi_payment_hash = replicate 64 CHR ''a''\<rparr>),
      li_Date_now = 1700000000000\<rparr>"

definition example_delegation :: delegatorPkpInfo where
  "example_delegation =
     \<lparr>ethAddress = ''0xAbCdEf1234567890123456789012345678901234'',
      publicKey = ''0x04abcdef1234567890abcdef1234567890abcdef1234567890abcdef1234567890abcdef1234567890abcdef1234567890abcdef1234567890abcdef1234567890''\<rparr>"


section \<open>Hexadecimal strings and SHA-256\<close>

text \<open>
  Payment hashes and preimages travel as hexadecimal strings; a string is a list of 8-bit
  characters, which covers the ASCII strings the abilities exchange. \<open>hex_val\<close> reads one digit of
  either case; \<open>Buffer_from_hex\<close> is Node's \<open>Buffer.from(s, 'hex')\<close>, which decodes pairs of
  digits and stops at the first pair that is not hexadecimal; \<open>digest_hex\<close> prints bytes the
  way \<open>digest('hex')\<close> does, in lower case.
\<close>

type_synonym byte = "8 word"
type_synonym u32 = "32 word"

definition hex_val :: "char \<Rightarrow> nat option" where
  "hex_val c =
     (if c \<in> set ''0123456789'' then Some (of_char c - 48)
      else if c \<in> set ''abcdef'' then Some (of_char c - 87)
      else if c \<in> set ''ABCDEF'' then Some (of_char c - 55)
      else None)"

definition is_hex_char :: "char \<Rightarrow> bool" where
  "is_hex_char c = (c \<in> set ''0123456789abcdefABCDEF'')"

fun Buffer_from_hex :: "string \<Rightarrow> byte list" where
  "Buffer_from_hex (a # b # cs) =
     (case (hex_val a, hex_val b) of
        (Some x, Some y) \<Rightarrow> of_nat (16 * x + y) # Buffer_from_hex cs
      | _ \<Rightarrow> [])"
| "Buffer_from_hex _ = []"

definition hex_digit :: "nat \<Rightarrow> char" where
  "hex_digit d = ''0123456789abcdef'' ! d"

definition digest_hex :: "byte list \<Rightarrow> string" where
  "digest_hex bs = concat (map (\<lambda>b. [hex_digit (unat b div 16), hex_digit (unat b mod 16)]) bs)"

text \<open>
  SHA-256 as in FIPS 180-4, on byte strings: the function the specification names
  \<open>sha256\<close>. The abilities themselves never call it (see \<open>lp_execute\<close> and
  \<open>verifyPreimage\<close> below); it is defined here so that the claims about digests can be
  stated and decided.
\<close>

definition rotr32 :: "nat \<Rightarrow> u32 \<Rightarrow> u32" where
  "rotr32 n x = drop_bit n x OR push_bit (32 - n) x"

definition sha_Ch :: "u32 \<Rightarrow> u32 \<Rightarrow> u32 \<Rightarrow> u32" where
  "sha_Ch x y z = (x AND y) XOR (NOT x AND z)"

definition sha_Maj :: "u32 \<Rightarrow> u32 \<Rightarrow> u32 \<Rightarrow> u32" where
  "sha_Maj x y z = (x AND y) XOR (x AND z) XOR (y AND z)"

definition big_sigma0 :: "u32 \<Rightarrow> u32" where
  "big_sigma0 x = rotr32 2 x XOR rotr32 13 x XOR rotr32 22 x"

definition big_sigma1 :: "u32 \<Rightarrow> u32" where
  "big_sigma1 x = rotr32 6 x XOR rotr32 11 x XOR rotr32 25 x"

definition small_sigma0 :: "u32 \<Rightarrow> u32" where
  "small_sigma0 x = rotr32 7 x XOR rotr32 18 x XOR drop_bit 3 x"

definition small_sigma1 :: "u32 \<Rightarrow> u32" where
  "small_sigma1 x = rotr32 17 x XOR rotr32 19 x XOR drop_bit 10 x"

definition sha256_K :: "u32 list" where
  "sha256_K =
    [0x428A2F98, 0x71374491, 0xB5C0FBCF, 0xE9B5DBA5, 0x3956C25B, 0x59F111F1, 0x923F82A4, 0xAB1C5ED5,
     0xD807AA98, 0x12835B01, 0x243185BE, 0x550C7DC3, 0x72BE5D74, 0x80DEB1FE, 0x9BDC06A7, 0xC19BF174,
     0xE49B69C1, 0xEFBE4786, 0x0FC19DC6, 0x240CA1CC, 0x2DE92C6F, 0x4A7484AA, 0x5CB0A9DC, 0x76F988DA,
     0x983E5152, 0xA831C66D, 0xB00327C8, 0xBF597FC7, 0xC6E00BF3, 0xD5A79147, 0x06CA6351, 0x14292967,
     0x27B70A85, 0x2E1B2138, 0x4D2C6DFC, 0x53380D13, 0x650A7354, 0x766A0ABB, 0x81C2C92E, 0x92722C85,
     0xA2BFE8A1, 0xA81A664B, 0xC24B8B70, 0xC76C51A3, 0xD192E819, 0xD6990624, 0xF40E3585, 0x106AA070,
     0x19A4C116, 0x1E376C08, 0x2748774C, 0x34B0BCB5, 0x391C0CB3, 0x4ED8AA4A, 0x5B9CCA4F, 0x682E6FF3,
     0x748F82EE, 0x78A5636F, 0x84C87814, 0x8CC70208, 0x90BEFFFA, 0xA4506CEB, 0xBEF9A3F7, 0xC67178F2]"

definition sha256_H0 :: "u32 list" where
  "sha256_H0 =
    [0x6a09e667, 0xbb67ae85, 0x3c6ef372, 0xa54ff53a, 0x510e527f, 0x9b05688c, 0x1f83d9ab, 0x5be0cd19]"

fun be32_words :: "byte list \<Rightarrow> u32 list" where
  "be32_words (a # b # c # d # bs) =
     (push_bit 24 (ucast a) OR push_bit 16 (ucast b) OR push_bit 8 (ucast c) OR ucast d)
       # be32_words bs"
| "be32_words _ = []"

definition be32_bytes :: "u32 \<Rightarrow> byte list" where
  "be32_bytes w = [ucast (drop_bit 24 w), ucast (drop_bit 16 w), ucast (drop_bit 8 w), ucast w]"

fun sha256_blocks :: "byte list \<Rightarrow> byte list list" where
  "sha256_blocks [] = []"
| "sha256_blocks (b # bs) = take 64 (b # bs) # sha256_blocks (drop 64 (b # bs))"

text \<open>Padding: a one bit, zeros up to 56 bytes modulo 64, and the bit length as a
  64-bit big-endian number.\<close>

definition sha256_length_bytes :: "nat \<Rightarrow> byte list" where
  "sha256_length_bytes n =
     (let w = (of_nat n :: 64 word)
      in map (\<lambda>i. ucast (drop_bit i w)) [56, 48, 40, 32, 24, 16, 8, 0])"

definition sha256_pad :: "byte list \<Rightarrow> byte list" where
  "sha256_pad m =
     m @ [0x80] @ replicate ((119 - length m mod 64) mod 64) 0 @ sha256_length_bytes (8 * length m)"

text \<open>The message schedule: \<open>n\<close> further words, each from the sixteen before it.\<close>

fun sha256_schedule :: "nat \<Rightarrow> u32 list \<Rightarrow> u32 list" where
  "sha256_schedule 0 w = w"
| "sha256_schedule (Suc n) w =
     (let i = length w in
      sha256_schedule n
        (w @ [small_sigma1 (w ! (i - 2)) + w ! (i - 7) + small_sigma0 (w ! (i - 15)) + w ! (i - 16)]))"

fun sha256_round :: "u32 list \<Rightarrow> u32 \<times> u32 \<Rightarrow> u32 list" where
  "sha256_round [a, b, c, d, e, f, g, h] (k, w) =
     (let t1 = h + big_sigma1 e + sha_Ch e f g + k + w;
          t2 = big_sigma0 a + sha_Maj a b c
      in [t1 + t2, a, b, c, d + t1, e, f, g])"
| "sha256_round s _ = s"

definition sha256_compress :: "u32 list \<Rightarrow> byte list \<Rightarrow> u32 list" where
  "sha256_compress h blk =
     map2 (+) h (foldl sha256_round h (zip sha256_K (sha256_schedule 48 (be32_words blk))))"

definition sha256 :: "byte list \<Rightarrow> byte list" where
  "sha256 m = concat (map be32_bytes (foldl sha256_compress sha256_H0 (sha256_blocks (sha256_pad m))))"

text \<open>The digest of a hexadecimal preimage, as the comment above \<open>verifyPreimage\<close> writes it:
  \<open>crypto.createHash('sha256').update(Buffer.from(preimage, 'hex')).digest('hex')\<close>.\<close>

definition sha256_hex :: "string \<Rightarrow> string" where
  "sha256_hex preimage = digest_hex (sha256 (Buffer_from_hex preimage))"


section \<open>Invoice Validation and Settlement Step: the lightning-payment ability\<close>

text \<open>\<open>packages/ability-lightning-payment\<close>: \<open>schemas.ts\<close> and \<open>vincent-ability.ts\<close>.\<close>

datatype payment_error =
  INVALID_INVOICE | PAYMENT_FAILED | INVOICE_EXPIRED | AMOUNT_MISMATCH | INSUFFICIENT_LIQUIDITY
  | NO_ROUTE_FOUND

text \<open>The ability parameters. An optional field that is not supplied is \<open>None\<close>.\<close>

record lp_params =
  lp_paymentRequest :: string
  lp_maxFeesat :: "int option"
  lp_timeoutSeconds :: "int option"
  lp_nwcUri :: "string option"
  lp_expectedAmountSat :: "int option"

text \<open>A number is falsy when it is missing or zero.\<close>

fun truthy_num :: "int option \<Rightarrow> bool" where
  "truthy_num None = False"
| "truthy_num (Some n) = (n \<noteq> 0)"

text \<open>A number in a template literal; a missing one prints as \<open>undefined\<close>.\<close>

fun show_num :: "int option \<Rightarrow> string" where
  "show_num None = ''undefined''"
| "show_num (Some n) = show_int n"

subsection \<open>The parameter schema\<close>

text \<open>
  \<open>paymentRequest\<close> must match \<open>/^ln(bc|tb|bcrt)[0-9a-z]+$/i\<close>: the letters \<open>ln\<close>, one of the
  three network tags, and one or more letters or digits up to the end, in either case.
\<close>

definition lower_char :: "char \<Rightarrow> char" where
  "lower_char c = (if c \<in> set ''ABCDEFGHIJKLMNOPQRSTUVWXYZ'' then char_of (of_char c + (32::nat)) else c)"

definition is_alnum_lower :: "char \<Rightarrow> bool" where
  "is_alnum_lower c = (c \<in> set ''0123456789abcdefghijklmnopqrstuvwxyz'')"

definition invoice_format_ok :: "string \<Rightarrow> bool" where
  "invoice_format_ok s =
     (let l = map lower_char s in
      list_ex (\<lambda>tag. startsWith l (''ln'' @ tag)
                      \<and> drop (2 + length tag) l \<noteq> []
                      \<and> list_all is_alnum_lower (drop (2 + length tag) l))
        [''bc'', ''tb'', ''bcrt''])"

fun positive_if_given :: "int option \<Rightarrow> bool" where
  "positive_if_given None = True"
| "positive_if_given (Some n) = (0 < n)"

text \<open>
  \<open>abilityParamsSchema\<close> (lines 15-52 of \<open>schemas.ts\<close>): the result of parsing, \<open>None\<close> when
  the schema rejects. \<open>timeoutSeconds\<close> is declared \<open>.default(60)\<close>: a parameter set without
  it is parsed into one whose \<open>timeoutSeconds\<close> is 60.
\<close>

definition abilityParamsSchema :: "lp_params \<Rightarrow> lp_params option" where
  "abilityParamsSchema p =
     (if invoice_format_ok (lp_paymentRequest p)
         \<and> positive_if_given (lp_maxFeesat p)
         \<and> positive_if_given (lp_timeoutSeconds p)
         \<and> positive_if_given (lp_expectedAmountSat p)
      then Some (p\<lparr>lp_timeoutSeconds :=
                     (case lp_timeoutSeconds p of None \<Rightarrow> Some 60 | Some t \<Rightarrow> Some t)\<rparr>)
      else None)"

subsection \<open>The world of the payment ability\<close>

text \<open>What the invoice decoder (\<open>new Invoice({ pr })\<close>) yields: the fields the handlers read.
  \<open>di_expiryDate\<close> is \<open>expiryDate.getTime()\<close>, in milliseconds.\<close>

record decoded_invoice =
  di_paymentHash :: string
  di_satoshi :: "int option"
  di_description :: "string option"
  di_expiryDate :: "int option"

text \<open>A promise settles some milliseconds after it was created, by resolving (\<open>Inr\<close>) or
  rejecting (\<open>Inl\<close>), or stays pending for ever.\<close>

datatype 'a promise = Settles nat "thrown + 'a" | Pending

text \<open>The \<open>preimage\<close> field of the rail's response: a string, \<open>null\<close>, or absent.\<close>

datatype js_string = JsUndefined | JsNull | JsString string

record pay_response =
  resp_preimage :: js_string

datatype wallet_call = WGetInfo | WGetBalance | WPayInvoice string

record lp_world =
  Invoice_new :: "string \<Rightarrow> thrown + decoded_invoice"
  lp_NWCClient_new :: "string \<Rightarrow> thrown + unit"
  lp_getInfo :: "thrown + nwc_info"
  lp_getBalance :: "thrown + int"
  lnClient_payInvoice :: "string \<Rightarrow> pay_response promise"
  lp_Date_now :: "nat \<Rightarrow> int"
  toISOString :: "int \<Rightarrow> string"
  Math_ceil_permille :: "int \<Rightarrow> int"

text \<open>
  \<open>lp_Date_now w k\<close> is the value of the \<open>k\<close>-th reading of \<open>Date.now()\<close> in a handler run
  (milliseconds). \<open>toISOString w t\<close> is \<open>new Date(t).toISOString()\<close>; \<open>t\<close> is always the time
  value of a decoded date or 0 there, for which the call does not throw.
  \<open>Math_ceil_permille w a\<close> is \<open>Math.ceil(a * 0.001)\<close>, computed in floating point by the
  platform.
\<close>

subsection \<open>NWCConnectionManager\<close>

text \<open>The singleton's fields: whether \<open>lnClient\<close> is set, \<open>isConnected\<close>, and the URI taken
  from the environment variable \<open>NWC_URI\<close> when the instance was created. The state outlives
  a handler run, so the handlers take it and return it.\<close>

record nwc_manager =
  lnClient :: bool
  isConnected :: bool
  mgr_nwcUri :: "string option"

text \<open>\<open>connect\<close> (lines 189-223).\<close>

definition connect ::
  "lp_world \<Rightarrow> string option \<Rightarrow> nwc_manager \<Rightarrow> (thrown + unit) \<times> nwc_manager \<times> wallet_call list" where
  "connect w nwcUri m =
     (let uri = (if truthy_str nwcUri then nwcUri else mgr_nwcUri m) in
      case uri of
        None \<Rightarrow>
          (Inl (JsError ''NWC URI not provided. Set NWC_URI environment variable or provide in ability params.''),
           m, [])
      | Some u \<Rightarrow>
          if u = [] then
            (Inl (JsError ''NWC URI not provided. Set NWC_URI environment variable or provide in ability params.''),
             m, [])
          else if lnClient m \<and> isConnected m then (Inr (), m, [])
          else
            (case lp_NWCClient_new w u of
               Inl e \<Rightarrow>
                 (Inl (JsError (''NWC connection failed: '' @ message_or e ''Unknown error'')),
                  m\<lparr>isConnected := False\<rparr>, [])
             | Inr _ \<Rightarrow>
                 (case lp_getInfo w of
                    Inl e \<Rightarrow>
                      (Inl (JsError (''NWC connection failed: '' @ message_or e ''Unknown error'')),
                       m\<lparr>lnClient := True, isConnected := False\<rparr>, [WGetInfo])
                  | Inr info \<Rightarrow>
                      (Inr (), m\<lparr>lnClient := True, isConnected := True\<rparr>, [WGetInfo]))))"

text \<open>\<open>getBalance\<close> (lines 225-237).\<close>

definition getBalance :: "lp_world \<Rightarrow> nwc_manager \<Rightarrow> (thrown + int) \<times> wallet_call list" where
  "getBalance w m =
     (if \<not> isConnected m \<or> \<not> lnClient m then
        (Inl (JsError ''NWC not connected. Call connect() first.''), [])
      else (lp_getBalance w, [WGetBalance]))"

text \<open>\<open>payInvoice\<close> (lines 239-260): the promise it returns. The response's preimage is
  passed on; the amount is the constant 0.\<close>

record pay_result =
  res_preimage :: js_string
  res_amount :: int

definition payInvoice ::
  "lp_world \<Rightarrow> nwc_manager \<Rightarrow> string \<Rightarrow> pay_result promise \<times> wallet_call list" where
  "payInvoice w m invoice =
     (if \<not> isConnected m \<or> \<not> lnClient m then
        (Settles 0 (Inl (JsError ''NWC not connected. Call connect() first.'')), [])
      else
        (case lnClient_payInvoice w invoice of
           Pending \<Rightarrow> (Pending, [WPayInvoice invoice])
         | Settles d (Inl e) \<Rightarrow> (Settles d (Inl e), [WPayInvoice invoice])
         | Settles d (Inr response) \<Rightarrow>
             (Settles d (Inr \<lparr>res_preimage = resp_preimage response, res_amount = 0\<rparr>),
              [WPayInvoice invoice])))"

subsection \<open>precheck\<close>

record lp_precheck_success =
  pcs_invoiceValid :: bool
  pcs_paymentHash :: string
  pcs_amountSat :: int
  pcs_destination :: string
  pcs_description :: string
  pcs_expiresAt :: int
  pcs_availableLiquidity :: "int option"
  pcs_estimatedFee :: "int option"

record lp_precheck_fail =
  pcf_error :: string
  pcf_reason :: payment_error

text \<open>The values read from the decoded invoice (lines 320-323): \<open>invoice.satoshi || 0\<close>,
  \<open>invoice.description || ''\<close>, \<open>invoice.expiryDate?.getTime() || 0\<close>.\<close>

definition invoice_amountSat :: "decoded_invoice \<Rightarrow> int" where
  "invoice_amountSat invoice = (case di_satoshi invoice of None \<Rightarrow> 0 | Some a \<Rightarrow> a)"

definition invoice_description :: "decoded_invoice \<Rightarrow> string" where
  "invoice_description invoice = (case di_description invoice of None \<Rightarrow> [] | Some d \<Rightarrow> d)"

definition invoice_expiresAt :: "decoded_invoice \<Rightarrow> int" where
  "invoice_expiresAt invoice = (case di_expiryDate invoice of None \<Rightarrow> 0 | Some t \<Rightarrow> t)"

text \<open>The liquidity check (lines 357-384): its \<open>catch\<close> swallows every failure of the
  wallet. The result is either the early \<open>fail\<close> or the pair
  \<open>(availableLiquidity, estimatedFee)\<close>.\<close>

definition liquidity_check ::
  "lp_world \<Rightarrow> nwc_manager \<Rightarrow> string option \<Rightarrow> int \<Rightarrow>
     (lp_precheck_fail + int option \<times> int option) \<times> nwc_manager \<times> wallet_call list" where
  "liquidity_check w m nwcUri amountSat =
     (case connect w nwcUri m of
        (Inl e, m', calls) \<Rightarrow> (Inr (None, Some (Math_ceil_permille w amountSat)), m', calls)
      | (Inr _, m', calls) \<Rightarrow>
          (case getBalance w m' of
             (Inl e, calls') \<Rightarrow>
               (Inr (None, Some (Math_ceil_permille w amountSat)), m', calls @ calls')
           | (Inr availableLiquidity, calls') \<Rightarrow>
               if amountSat > availableLiquidity then
                 (Inl \<lparr>pcf_error = ''Insufficient Lightning liquidity. Required: '' @ show_int amountSat
                                     @ '' sat, Available: '' @ show_int availableLiquidity @ '' sat'',
                       pcf_reason = INSUFFICIENT_LIQUIDITY\<rparr>, m', calls @ calls')
               else
                 (Inr (Some availableLiquidity, Some (Math_ceil_permille w amountSat)),
                  m', calls @ calls')))"

text \<open>\<open>precheck\<close> (lines 302-405). The outer \<open>catch\<close> has no counterpart: the statements
  outside the two inner \<open>try\<close> blocks do not throw.\<close>

definition lp_precheck ::
  "lp_world \<Rightarrow> nwc_manager \<Rightarrow> lp_params \<Rightarrow>
     (lp_precheck_success, lp_precheck_fail) ability_result \<times> nwc_manager \<times> wallet_call list" where
  "lp_precheck w m p =
     (case Invoice_new w (lp_paymentRequest p) of
        Inl e \<Rightarrow>
          (Failure \<lparr>pcf_error = ''Failed to decode Lightning invoice: '' @ message_or e ''Unknown error'',
                    pcf_reason = INVALID_INVOICE\<rparr>, m, [])
      | Inr invoice \<Rightarrow>
          let paymentHash = di_paymentHash invoice;
              amountSat = invoice_amountSat invoice;
              description = invoice_description invoice;
              expiresAt = invoice_expiresAt invoice;
              now = lp_Date_now w 0
          in
          if expiresAt \<noteq> 0 \<and> expiresAt < now then
            (Failure \<lparr>pcf_error = ''Invoice expired at '' @ toISOString w expiresAt,
                      pcf_reason = INVOICE_EXPIRED\<rparr>, m, [])
          else if truthy_num (lp_expectedAmountSat p) \<and> Some amountSat \<noteq> lp_expectedAmountSat p then
            (Failure \<lparr>pcf_error = ''Invoice amount ('' @ show_int amountSat
                                  @ '' sat) does not match expected amount (''
                                  @ show_num (lp_expectedAmountSat p) @ '' sat)'',
                      pcf_reason = AMOUNT_MISMATCH\<rparr>, m, [])
          else if amountSat = 0 then
            (Failure \<lparr>pcf_error = ''Invoice does not specify an amount. Amount-less invoices are not supported.'',
                      pcf_reason = INVALID_INVOICE\<rparr>, m, [])
          else
            (case liquidity_check w m (lp_nwcUri p) amountSat of
               (Inl f, m', calls) \<Rightarrow> (Failure f, m', calls)
             | (Inr (availableLiquidity, estimatedFee), m', calls) \<Rightarrow>
                 (Success \<lparr>pcs_invoiceValid = True,
                           pcs_paymentHash = paymentHash,
                           pcs_amountSat = amountSat,
                           pcs_destination = ''unknown'',
                           pcs_description = description,
                           pcs_expiresAt = expiresAt,
                           pcs_availableLiquidity = availableLiquidity,
                           pcs_estimatedFee = estimatedFee\<rparr>, m', calls)))"

subsection \<open>execute\<close>

record lp_execute_success =
  es_preimage :: string
  es_paymentHash :: string
  es_amountSat :: int
  es_feeSat :: int
  es_totalSat :: int
  es_timestamp :: int
  es_status :: string

record lp_execute_fail =
  ef_error :: string
  ef_reason :: payment_error
  ef_paymentHash :: "string option"

text \<open>
  The delay \<open>setTimeout\<close> really waits for a requested number of milliseconds: a request
  below 1 or above 2147483647 is replaced by 1.
\<close>

definition setTimeout_delay :: "int \<Rightarrow> int" where
  "setTimeout_delay ms = (if ms < 1 \<or> 2147483647 < ms then 1 else ms)"

text \<open>
  Lines 440-452: the payment promise alone, or raced against a timer that rejects with
  \<open>Payment timeout\<close>; the timer is set for \<open>timeoutSeconds * 1000\<close> milliseconds. A payment
  that has settled by the time the timer is due wins the race; one that settles later, or
  never, loses it. \<open>None\<close> means that the \<open>await\<close> never returns.
\<close>

fun await_payment :: "int option \<Rightarrow> pay_result promise \<Rightarrow> (thrown + pay_result) option" where
  "await_payment (Some timeoutSeconds) (Settles d r) =
     (if timeoutSeconds \<noteq> 0 then
        (if int d \<le> setTimeout_delay (timeoutSeconds * 1000) then Some r
         else Some (Inl (JsError ''Payment timeout'')))
      else Some r)"
| "await_payment (Some timeoutSeconds) Pending =
     (if timeoutSeconds \<noteq> 0 then Some (Inl (JsError ''Payment timeout'')) else None)"
| "await_payment None (Settles d r) = Some r"
| "await_payment None Pending = None"

text \<open>Lines 461-465: \<open>!preimage || preimage.length !== 64\<close>. The preimage's length is the
  only thing inspected. \<open>show_preimage\<close> is the preimage as a template literal prints it: the
  string itself, \<open>null\<close>, or \<open>undefined\<close>.\<close>

fun preimage_rejected :: "js_string \<Rightarrow> bool" where
  "preimage_rejected JsUndefined = True"
| "preimage_rejected JsNull = True"
| "preimage_rejected (JsString preimage) = (preimage = [] \<or> length preimage \<noteq> 64)"

fun show_preimage :: "js_string \<Rightarrow> string" where
  "show_preimage JsUndefined = ''undefined''"
| "show_preimage JsNull = ''null''"
| "show_preimage (JsString s) = s"

text \<open>Lines 461-496, after the payment has returned: the check of the preimage and the
  success payload. Lines 467-469 hold only a comment, \<open>For now, we trust the NWC response\<close>;
  no digest is computed.\<close>

definition payment_result ::
  "lp_world \<Rightarrow> decoded_invoice \<Rightarrow> pay_result \<Rightarrow> thrown + lp_execute_success" where
  "payment_result w invoice paymentResult =
     (let paymentHash = di_paymentHash invoice;
          expectedAmountSat = invoice_amountSat invoice;
          preimage = res_preimage paymentResult
      in
      if preimage_rejected preimage then
        Inl (JsError (''Invalid preimage received: '' @ show_preimage preimage))
      else
        let actualAmountSat =
              (if res_amount paymentResult \<noteq> 0 then res_amount paymentResult else expectedAmountSat);
            feeSat =
              (if actualAmountSat > expectedAmountSat then max 0 (actualAmountSat - expectedAmountSat)
               else 0)
        in Inr \<lparr>es_preimage = show_preimage preimage,
                es_paymentHash = paymentHash,
                es_amountSat = expectedAmountSat,
                es_feeSat = feeSat,
                es_totalSat = actualAmountSat,
                es_timestamp = lp_Date_now w 2,
                es_status = ''SUCCEEDED''\<rparr>)"

text \<open>The body of the \<open>try\<close> of \<open>execute\<close> (lines 413-496).\<close>

definition lp_execute_body ::
  "lp_world \<Rightarrow> nwc_manager \<Rightarrow> lp_params \<Rightarrow>
     ((thrown + lp_execute_success) \<times> nwc_manager \<times> wallet_call list) option" where
  "lp_execute_body w m p =
     (case Invoice_new w (lp_paymentRequest p) of
        Inl e \<Rightarrow> Some (Inl e, m, [])
      | Inr invoice \<Rightarrow>
          (case connect w (lp_nwcUri p) m of
             (Inl e, m', calls) \<Rightarrow> Some (Inl e, m', calls)
           | (Inr _, m', calls) \<Rightarrow>
               (case payInvoice w m' (lp_paymentRequest p) of
                  (paymentPromise, calls') \<Rightarrow>
                    (case await_payment (lp_timeoutSeconds p) paymentPromise of
                       None \<Rightarrow> None
                     | Some (Inl e) \<Rightarrow> Some (Inl e, m', calls @ calls')
                     | Some (Inr paymentResult) \<Rightarrow>
                         Some (payment_result w invoice paymentResult, m', calls @ calls')))))"

text \<open>The \<open>catch\<close> of \<open>execute\<close> (lines 497-511): the reason is always \<open>PAYMENT_FAILED\<close>; the
  payment hash is decoded again, and left out when that fails.\<close>

definition lp_execute_catch :: "lp_world \<Rightarrow> lp_params \<Rightarrow> thrown \<Rightarrow> lp_execute_fail" where
  "lp_execute_catch w p e =
     \<lparr>ef_error = ''Payment execution failed: '' @ message_or e ''Unknown error'',
      ef_reason = PAYMENT_FAILED,
      ef_paymentHash =
        (case Invoice_new w (lp_paymentRequest p) of
           Inl _ \<Rightarrow> None
         | Inr invoice \<Rightarrow> Some (di_paymentHash invoice))\<rparr>"

text \<open>\<open>execute\<close> (lines 411-512), the handler.\<close>

definition lp_execute ::
  "lp_world \<Rightarrow> nwc_manager \<Rightarrow> lp_params \<Rightarrow>
     ((lp_execute_success, lp_execute_fail) ability_result \<times> nwc_manager \<times> wallet_call list) option" where
  "lp_execute w m p =
     (case lp_execute_body w m p of
        None \<Rightarrow> None
      | Some (Inr s, m', calls) \<Rightarrow> Some (Success s, m', calls)
      | Some (Inl e, m', calls) \<Rightarrow> Some (Failure (lp_execute_catch w p e), m', calls))"

subsection \<open>verifyPreimage\<close>

text \<open>\<open>/^[0-9a-f]{64}$/i\<close>\<close>

definition hexRegex_test :: "string \<Rightarrow> bool" where
  "hexRegex_test s = (length s = 64 \<and> list_all is_hex_char s)"

text \<open>\<open>verifyPreimage\<close> (lines 523-533).\<close>

definition verifyPreimage :: "string \<Rightarrow> string \<Rightarrow> bool" where
  "verifyPreimage preimage expectedHash =
     (if length preimage \<noteq> 64 \<or> length expectedHash \<noteq> 64 then False
      else hexRegex_test preimage \<and> hexRegex_test expectedHash)"

subsection \<open>The exported execute\<close>

text \<open>
  The result schemas of \<open>schemas.ts\<close> (lines 86-134). A success payload must carry a
  \<open>preimage\<close> and a \<open>paymentHash\<close> matching \<open>/^[0-9a-f]{64}$/i\<close>, a positive \<open>amountSat\<close>
  and \<open>totalSat\<close>, a non-negative \<open>feeSat\<close> and the status \<open>SUCCEEDED\<close>; a failure payload
  must carry one of three reasons, if any.
\<close>

definition hex64_pattern :: "string \<Rightarrow> bool" where
  "hex64_pattern s = (length s = 64 \<and> list_all is_hex_char s)"

definition executeSuccessSchema :: "lp_execute_success \<Rightarrow> bool" where
  "executeSuccessSchema s =
     (hex64_pattern (es_preimage s)
      \<and> hex64_pattern (es_paymentHash s)
      \<and> 0 < es_amountSat s
      \<and> 0 \<le> es_feeSat s
      \<and> 0 < es_totalSat s
      \<and> es_status s = ''SUCCEEDED'')"

definition executeFailSchema :: "lp_execute_fail \<Rightarrow> bool" where
  "executeFailSchema f = (ef_reason f \<in> set [PAYMENT_FAILED, NO_ROUTE_FOUND, INSUFFICIENT_LIQUIDITY])"

text \<open>
  The ability as \<open>createVincentAbility\<close> exposes it. The parameters are parsed with
  \<open>abilityParamsSchema\<close>, and a parameter set the schema rejects never reaches the handler.
  The handler runs on the parsed parameters. Its payload is then checked against the result
  schema of its kind; a payload the schema rejects is not returned, the call fails with
  \<open>Invalid execute result.\<close> instead (the requests sent and the manager's state stay as the
  handler left them).
\<close>

datatype sdk_failure =
  Invalid_execute_parameters
  | Invalid_execute_result nwc_manager "wallet_call list"

definition vincentAbility_execute ::
  "lp_world \<Rightarrow> nwc_manager \<Rightarrow> lp_params \<Rightarrow>
     (sdk_failure
      + ((lp_execute_success, lp_execute_fail) ability_result \<times> nwc_manager \<times> wallet_call list) option)" where
  "vincentAbility_execute w m p =
     (case abilityParamsSchema p of
        None \<Rightarrow> Inl Invalid_execute_parameters
      | Some parsed \<Rightarrow>
          (case lp_execute w m parsed of
             None \<Rightarrow> Inr None
           | Some (Success s, m', calls) \<Rightarrow>
               if executeSuccessSchema s then Inr (Some (Success s, m', calls))
               else Inl (Invalid_execute_result m' calls)
           | Some (Failure f, m', calls) \<Rightarrow>
               if executeFailSchema f then Inr (Some (Failure f, m', calls))
               else Inl (Invalid_execute_result m' calls)))"

subsection \<open>Example worlds\<close>

text \<open>An invoice for 150 satoshis that expires one hour after the clock's first reading, a
  wallet holding 100000 satoshis, and a rail that pays within 1.2 seconds and returns the
  preimage of 64 zeros.\<close>

definition example_invoice :: decoded_invoice where
  "example_invoice =
     \<lparr>di_paymentHash = ''1111111111111111111111111111111111111111111111111111111111111111'',
      di_satoshi = Some 150,
      di_description = Some ''swap'',
      di_expiryDate = Some 1700003600000\<rparr>"

definition example_lp_world :: lp_world where
  "example_lp_world =
     \<lparr>Invoice_new = (\<lambda>pr. if pr = ''lnbc1500n1example'' then Inr example_invoice
                           else Inl (JsError ''Invalid invoice'')),
      lp_NWCClient_new = (\<lambda>_. Inr ()),
      lp_getInfo = Inr \<lparr>info_alias = Some ''test-wallet'', info_pubkey = None\<rparr>,
      lp_getBalance = Inr 100000,
      lnClient_payInvoice = (\<lambda>_. Settles 1200
           (Inr \<lparr>resp_preimage = JsString ''0000000000000000000000000000000000000000000000000000000000000000''\<rparr>)),
      lp_Date_now = (\<lambda>k. 1700000000000 + 1200 * int k),
      toISOString = (\<lambda>t. if t = 1700003600000 then ''2023-11-14T23:13:20.000Z''
                          else ''1970-01-01T00:00:00.000Z''),
      Math_ceil_permille = (\<lambda>a. (a + 999) div 1000)\<rparr>"

definition fresh_manager :: nwc_manager where
  "fresh_manager = \<lparr>lnClient = False, isConnected = False, mgr_nwcUri = None\<rparr>"

definition example_lp_params :: lp_params where
  "example_lp_params =
     \<lparr>lp_paymentRequest = ''lnbc1500n1example'',
      lp_maxFeesat = None,
      lp_timeoutSeconds = Some 60,
      lp_nwcUri = Some ''nostr+walletconnect://test-pubkey?relay=wss://relay.test.com&secret=test-secret'',
      lp_expectedAmountSat = None\<rparr>"

text \<open>Variations of the rail's answer to \<open>payInvoice\<close>: a preimage of 32 hexadecimal
  characters, one of 64 characters that are not hexadecimal, a payment that settles after
  61 seconds, and one that never settles.\<close>

definition short_preimage_world :: lp_world where
  "short_preimage_world =
     example_lp_world\<lparr>lnClient_payInvoice :=
       (\<lambda>_. Settles 1200 (Inr \<lparr>resp_preimage = JsString ''0123456789abcdef0123456789abcdef''\<rparr>))\<rparr>"

definition non_hex_preimage_world :: lp_world where
  "non_hex_preimage_world =
     example_lp_world\<lparr>lnClient_payInvoice :=
       (\<lambda>_. Settles 1200
           (Inr \<lparr>resp_preimage = JsString ''zzzzzzzzzzzzzzzzzzzzzzzzzzzzzzzzzzzzzzzzzzzzzzzzzzzzzzzzzzzzzzzz''\<rparr>))\<rparr>"

definition slow_rail_world :: lp_world where
  "slow_rail_world =
     example_lp_world\<lparr>lnClient_payInvoice :=
       (\<lambda>_. Settles 61000
           (Inr \<lparr>resp_preimage = JsString ''0000000000000000000000000000000000000000000000000000000000000000''\<rparr>))\<rparr>"

definition silent_rail_world :: lp_world where
  "silent_rail_world = example_lp_world\<lparr>lnClient_payInvoice := (\<lambda>_. Pending)\<rparr>"

text \<open>The same world one millisecond after the example invoice has expired.\<close>

definition expired_world :: lp_world where
  "expired_world = example_lp_world\<lparr>lp_Date_now := (\<lambda>k. 1700003600001 + 1200 * int k)\<rparr>"

text \<open>An invoice that carries no expiry date, decoded long after the example clock.\<close>

definition no_expiry_world :: lp_world where
  "no_expiry_world =
     example_lp_world
       \<lparr>Invoice_new := (\<lambda>pr. if pr = ''lnbc1500n1example''
                              then Inr (example_invoice\<lparr>di_expiryDate := None\<rparr>)
                              else Inl (JsError ''Invalid invoice'')),
        lp_Date_now := (\<lambda>k. 9999999999999 + 1200 * int k)\<rparr>"

definition connected_manager :: nwc_manager where
  "connected_manager = \<lparr>lnClient = True, isConnected = True, mgr_nwcUri = None\<rparr>"


section \<open>Lock Step: the hedera-htlc ability\<close>

text \<open>\<open>packages/ability-hedera-htlc\<close>: \<open>hedera-config.ts\<close>, \<open>schemas.ts\<close> and
  \<open>vincent-ability.ts\<close>.\<close>

datatype htlc_error =
  INSUFFICIENT_BALANCE | INSUFFICIENT_ALLOWANCE | INVALID_PAYMENT_HASH | INVALID_TIMELOCK
  | TRANSACTION_FAILED | CONTRACT_ERROR

record htlc_params =
  hp_paymentHash :: string
  hp_amount :: string
  hp_tokenAddress :: string
  hp_htlcContractAddress :: string
  hp_timelock :: int
  hp_rpcUrl :: string
  hp_chainId :: int

subsection \<open>hedera-config.ts\<close>

record hedera_network =
  net_chainId :: int
  net_name :: string
  net_rpcUrl :: string
  net_explorer :: string

definition HEDERA_MAINNET :: hedera_network where
  "HEDERA_MAINNET =
     \<lparr>net_chainId = 295, net_name = ''Hedera Mainnet'', net_rpcUrl = ''https://mainnet.hedera.com'',
      net_explorer = ''https://hashscan.io/mainnet''\<rparr>"

definition HEDERA_TESTNET :: hedera_network where
  "HEDERA_TESTNET =
     \<lparr>net_chainId = 296, net_name = ''Hedera Testnet'', net_rpcUrl = ''https://testnet.hedera.com'',
      net_explorer = ''https://hashscan.io/testnet''\<rparr>"

definition HEDERA_PREVIEWNET :: hedera_network where
  "HEDERA_PREVIEWNET =
     \<lparr>net_chainId = 297, net_name = ''Hedera Previewnet'', net_rpcUrl = ''https://previewnet.hedera.com'',
      net_explorer = ''https://hashscan.io/previewnet''\<rparr>"

definition getHederaNetwork :: "int \<Rightarrow> thrown + hedera_network" where
  "getHederaNetwork chainId =
     (if chainId = 295 then Inr HEDERA_MAINNET
      else if chainId = 296 then Inr HEDERA_TESTNET
      else if chainId = 297 then Inr HEDERA_PREVIEWNET
      else Inl (JsError (''Unsupported Hedera chain ID: '' @ show_int chainId)))"

subsection \<open>The ledger and the libraries\<close>

text \<open>A transaction receipt: the fields read by the ability (\<open>status\<close>, \<open>blockNumber\<close>) and
  the logs, which carry the events of the transaction.\<close>

record tx_log =
  log_address :: string
  log_topics :: "string list"
  log_data :: string

record tx_receipt =
  rc_status :: "nat option"
  rc_blockNumber :: nat
  rc_logs :: "tx_log list"

text \<open>
  The requests sent to the ledger. The reads go to the JSON-RPC provider; \<open>ContractCall\<close>
  is \<open>laUtils.transaction.handler.contractCall\<close>, which signs a transaction with the user's
  key and broadcasts it: the one state-changing request.
\<close>

datatype ledger_call =
  BalanceOf string string
  | Allowance string string string
  | EstimateGasCreateHTLCToken string int string string string
  | GetTransactionCount string
  | GetGasPrice
  | EstimateGas string string string
  | ContractCall string string string string "string \<times> int \<times> string \<times> string" int
  | WaitForTransaction string nat

fun state_changing :: "ledger_call \<Rightarrow> bool" where
  "state_changing (ContractCall pkp caller contract fn args chain) = True"
| "state_changing _ = False"

text \<open>
  The world of the ability. \<open>BigNumber_from\<close> is \<open>ethers.BigNumber.from\<close> on a string;
  \<open>encodeFunctionData\<close> is the ABI encoding of a \<open>createHTLCToken\<close> call;
  \<open>keccak256_solidityPack\<close> is \<open>ethers.utils.keccak256(ethers.utils.solidityPack(\<dots>))\<close> on
  the six values \<open>address, address, uint256, bytes32, uint256, uint256\<close>. The remaining
  fields are the ledger's answers to the requests above. \<open>hw_Date_now\<close> is the clock in
  milliseconds; each handler reads it once.
\<close>

record htlc_world =
  hw_Date_now :: int
  BigNumber_from :: "string \<Rightarrow> thrown + int"
  balanceOf :: "thrown + int"
  allowance :: "thrown + int"
  estimateGas_createHTLCToken :: "thrown + int"
  encodeFunctionData :: "string \<Rightarrow> int \<Rightarrow> string \<Rightarrow> string \<Rightarrow> thrown + string"
  getTransactionCount :: "thrown + int"
  getGasPrice :: "thrown + int"
  estimateGas :: "thrown + int"
  contractCall :: "thrown + string"
  keccak256_solidityPack ::
    "string \<Rightarrow> string \<Rightarrow> string \<Rightarrow> string \<Rightarrow> int \<Rightarrow> int \<Rightarrow> thrown + string"
  waitForTransaction :: "thrown + tx_receipt option"

subsection \<open>precheck\<close>

record htlc_precheck_success =
  hps_hasAllowance :: bool
  hps_hasBalance :: bool
  hps_availableBalance :: string
  hps_estimatedGas :: string

record htlc_fail =
  hf_error :: string
  hf_reason :: htlc_error

text \<open>\<open>/^0x[a-fA-F0-9]{64}$/\<close>\<close>

definition paymentHash_format_ok :: "string \<Rightarrow> bool" where
  "paymentHash_format_ok s =
     (startsWith s ''0x'' \<and> length s = 66 \<and> list_all is_hex_char (drop 2 s))"

text \<open>Lines 98-135 of \<open>precheck\<close>: the reads from the ledger. A throw in here is caught
  by the handler's \<open>catch\<close>.\<close>

definition htlc_precheck_reads ::
  "htlc_world \<Rightarrow> delegatorPkpInfo \<Rightarrow> htlc_params \<Rightarrow>
     (thrown + (htlc_precheck_success, htlc_fail) ability_result) \<times> ledger_call list" where
  "htlc_precheck_reads w delegation p =
     (let userAddress = ethAddress delegation;
          c1 = [BalanceOf (hp_tokenAddress p) userAddress];
          c2 = c1 @ [Allowance (hp_tokenAddress p) userAddress (hp_htlcContractAddress p)];
          c3 = c2 @ [EstimateGasCreateHTLCToken (hp_paymentHash p) (hp_timelock p)
                       (hp_tokenAddress p) (hp_amount p) userAddress]
      in
      case balanceOf w of
        Inl e \<Rightarrow> (Inl e, c1)
      | Inr balance \<Rightarrow>
          (case BigNumber_from w (hp_amount p) of
             Inl e \<Rightarrow> (Inl e, c1)
           | Inr amount \<Rightarrow>
               if balance < amount then
                 (Inr (Failure \<lparr>hf_error = ''Insufficient token balance. Have: '' @ show_int balance
                                            @ '', Need: '' @ hp_amount p,
                                 hf_reason = INSUFFICIENT_BALANCE\<rparr>), c1)
               else
                 (case allowance w of
                    Inl e \<Rightarrow> (Inl e, c2)
                  | Inr allowed \<Rightarrow>
                      (case estimateGas_createHTLCToken w of
                         Inl e \<Rightarrow> (Inl e, c3)
                       | Inr estimatedGas \<Rightarrow>
                           (Inr (Success \<lparr>hps_hasAllowance = (allowed \<ge> amount),
                                           hps_hasBalance = True,
                                           hps_availableBalance = show_int balance,
                                           hps_estimatedGas = show_int estimatedGas\<rparr>), c3)))))"

text \<open>\<open>precheck\<close> (lines 59-143).\<close>

definition htlc_precheck ::
  "htlc_world \<Rightarrow> delegatorPkpInfo \<Rightarrow> htlc_params \<Rightarrow>
     (htlc_precheck_success, htlc_fail) ability_result \<times> ledger_call list" where
  "htlc_precheck w delegation p =
     (case getHederaNetwork (hp_chainId p) of
        Inl e \<Rightarrow>
          (Failure \<lparr>hf_error = ''Invalid Hedera chain ID: '' @ show_int (hp_chainId p),
                    hf_reason = CONTRACT_ERROR\<rparr>, [])
      | Inr network \<Rightarrow>
          if \<not> paymentHash_format_ok (hp_paymentHash p) then
            (Failure \<lparr>hf_error = ''Payment hash must be a 32-byte hex string (0x...)'',
                      hf_reason = INVALID_PAYMENT_HASH\<rparr>, [])
          else
            let now = hw_Date_now w div 1000 in
            if hp_timelock p \<le> now then
              (Failure \<lparr>hf_error = ''Timelock ('' @ show_int (hp_timelock p)
                                    @ '') must be in the future (current: '' @ show_int now @ '')'',
                        hf_reason = INVALID_TIMELOCK\<rparr>, [])
            else
              (case htlc_precheck_reads w delegation p of
                 (Inr result, calls) \<Rightarrow> (result, calls)
               | (Inl e, calls) \<Rightarrow>
                   (Failure \<lparr>hf_error = message_or e ''Unknown precheck error'',
                             hf_reason = CONTRACT_ERROR\<rparr>, calls)))"

subsection \<open>execute\<close>

record htlc_execute_success =
  hes_contractId :: string
  hes_txHash :: string
  hes_paymentHash :: string
  hes_amount :: string
  hes_timelock :: int
  hes_blockNumber :: nat

text \<open>
  The body of the \<open>try\<close> of \<open>execute\<close> (lines 151-247). The parameters are used as they
  come: there is no comparison of \<open>timelock\<close> with the clock. After the three reads the
  transaction is signed and broadcast; \<open>contractId\<close> is then computed from the parameters
  and the local clock (lines 218-225), before the confirmation is awaited (line 232). Of
  the receipt only \<open>status\<close> and \<open>blockNumber\<close> are read.
\<close>

definition htlc_execute_body ::
  "htlc_world \<Rightarrow> delegatorPkpInfo \<Rightarrow> htlc_params \<Rightarrow>
     (thrown + htlc_execute_success) \<times> ledger_call list" where
  "htlc_execute_body w delegation p =
     (let userAddress = ethAddress delegation;
          pkpPublicKey = publicKey delegation;
          c1 = [GetTransactionCount userAddress];
          c2 = c1 @ [GetGasPrice]
      in
      case encodeFunctionData w (hp_paymentHash p) (hp_timelock p) (hp_tokenAddress p) (hp_amount p) of
        Inl e \<Rightarrow> (Inl e, [])
      | Inr data \<Rightarrow>
          (case getTransactionCount w of
             Inl e \<Rightarrow> (Inl e, c1)
           | Inr nonce \<Rightarrow>
               (case getGasPrice w of
                  Inl e \<Rightarrow> (Inl e, c2)
                | Inr gasPrice \<Rightarrow>
                    let c3 = c2 @ [EstimateGas userAddress (hp_htlcContractAddress p) data] in
                    (case estimateGas w of
                       Inl e \<Rightarrow> (Inl e, c3)
                     | Inr estimatedGas \<Rightarrow>
                         let gasLimit = estimatedGas * 120 div 100;
                             c4 = c3 @ [ContractCall pkpPublicKey userAddress (hp_htlcContractAddress p)
                                          ''createHTLCToken''
                                          (hp_paymentHash p, hp_timelock p, hp_tokenAddress p, hp_amount p)
                                          (hp_chainId p)]
                         in
                         (case contractCall w of
                            Inl e \<Rightarrow> (Inl e, c4)
                          | Inr txHash \<Rightarrow>
                              (case keccak256_solidityPack w userAddress (hp_tokenAddress p) (hp_amount p)
                                      (hp_paymentHash p) (hp_timelock p) (hw_Date_now w div 1000) of
                                 Inl e \<Rightarrow> (Inl e, c4)
                               | Inr contractId \<Rightarrow>
                                   let c5 = c4 @ [WaitForTransaction txHash 1] in
                                   (case waitForTransaction w of
                                      Inl e \<Rightarrow> (Inl e, c5)
                                    | Inr None \<Rightarrow> (Inl (JsError ''Transaction failed on-chain''), c5)
                                    | Inr (Some receipt) \<Rightarrow>
                                        if rc_status receipt = Some 0 then
                                          (Inl (JsError ''Transaction failed on-chain''), c5)
                                        else
                                          (Inr \<lparr>hes_contractId = contractId,
                                                hes_txHash = txHash,
                                                hes_paymentHash = hp_paymentHash p,
                                                hes_amount = hp_amount p,
                                                hes_timelock = hp_timelock p,
                                                hes_blockNumber = rc_blockNumber receipt\<rparr>, c5))))))))"

text \<open>\<open>execute\<close> (lines 149-255): the body, and the \<open>catch\<close> with its one reason.\<close>

definition htlc_execute ::
  "htlc_world \<Rightarrow> delegatorPkpInfo \<Rightarrow> htlc_params \<Rightarrow>
     (htlc_execute_success, htlc_fail) ability_result \<times> ledger_call list" where
  "htlc_execute w delegation p =
     (case htlc_execute_body w delegation p of
        (Inr s, calls) \<Rightarrow> (Success s, calls)
      | (Inl e, calls) \<Rightarrow>
          (Failure \<lparr>hf_error = message_or e ''Unknown execution error'',
                    hf_reason = TRANSACTION_FAILED\<rparr>, calls))"

subsection \<open>The lock-created event\<close>

text \<open>
  How the repository reads the identifier the ledger assigned to a new lock
  (\<open>vincent-ability.integration.spec.ts\<close>, lines 188-201): the first log of the receipt
  whose first topic is the signature hash of
  \<open>HTLCCreated(bytes32,address,address,uint256,bytes32,uint256)\<close>; the identifier is that
  log's second topic. \<open>HTLCCreated_topic\<close> is the value of \<open>ethers.utils.id\<close> on the
  signature.
\<close>

definition HTLCCreated_topic :: string where
  "HTLCCreated_topic = ''0x74b31fb94ac446dbc3a353b07114a83c8bfb64c7357d5ac455b1ad036f84bb9e''"

fun first_topic_is :: "string \<Rightarrow> tx_log \<Rightarrow> bool" where
  "first_topic_is t lg = (case log_topics lg of [] \<Rightarrow> False | t0 # _ \<Rightarrow> t0 = t)"

definition event_contractId :: "tx_receipt \<Rightarrow> string option" where
  "event_contractId receipt =
     (case find (first_topic_is HTLCCreated_topic) (rc_logs receipt) of
        None \<Rightarrow> None
      | Some htlcLog \<Rightarrow>
          (case log_topics htlcLog of
             t0 # contractId # _ \<Rightarrow> Some contractId
           | _ \<Rightarrow> None))"

subsection \<open>Example worlds\<close>

text \<open>
  The parameters of the ability's unit tests, at the local time 1700000005 s. The ledger
  holds twice the amount, and confirms the transaction in block 12345 with a lock-created
  event. The event's identifier is the one a lock contract derives with the block time
  1700000003; the library value for the local time 1700000005 is another one.
\<close>

definition example_htlc_params :: htlc_params where
  "example_htlc_params =
     \<lparr>hp_paymentHash = ''0x1111111111111111111111111111111111111111111111111111111111111111'',
      hp_amount = ''1000000000000000000'',
      hp_tokenAddress = ''0x0987654321098765432109876543210987654321'',
      hp_htlcContractAddress = ''0x1234567890123456789012345678901234567890'',
      hp_timelock = 1700086400,
      hp_rpcUrl = ''https://testnet.hedera.com'',
      hp_chainId = 296\<rparr>"

definition example_receipt :: tx_receipt where
  "example_receipt =
     \<lparr>rc_status = Some 1,
      rc_blockNumber = 12345,
      rc_logs =
        [\<lparr>log_address = ''0x1234567890123456789012345678901234567890'',
          log_topics =
            [HTLCCreated_topic,
             ''0x3eb9a9df8527d59594928d6ee75311c51b5a5763c82f11a1f202661205e9eca7'',
             ''0x000000000000000000000000abcdef1234567890123456789012345678901234'',
             ''0x0000000000000000000000000987654321098765432109876543210987654321''],
          log_data = ''0x''\<rparr>]\<rparr>"

definition example_keccak256_solidityPack ::
  "string \<Rightarrow> string \<Rightarrow> string \<Rightarrow> string \<Rightarrow> int \<Rightarrow> int \<Rightarrow> thrown + string" where
  "example_keccak256_solidityPack userAddress tokenAddress amount paymentHash timelock seconds =
     (if (userAddress, tokenAddress, amount, paymentHash) =
           (''0xAbCdEf1234567890123456789012345678901234'',
            ''0x0987654321098765432109876543210987654321'',
            ''1000000000000000000'',
            ''0x1111111111111111111111111111111111111111111111111111111111111111'')
      then
        (if (timelock, seconds) = (1700086400, 1700000005) then
           Inr ''0x8f7c42a1ecae6880279ea8b608dbc0979cca4d9448404572a9d0e25953562337''
         else if (timelock, seconds) = (1700086400, 1700000003) then
           Inr ''0x3eb9a9df8527d59594928d6ee75311c51b5a5763c82f11a1f202661205e9eca7''
         else if (timelock, seconds) = (1699999995, 1700000005) then
           Inr ''0xca5ce403962b5dccd8c4c85ad4e2ae448569cded22fc52ab35b485a317964a41''
         else Inl (JsError ''value not tabulated''))
      else Inl (JsError ''value not tabulated''))"

definition example_encodeFunctionData :: "string \<Rightarrow> int \<Rightarrow> string \<Rightarrow> string \<Rightarrow> thrown + string" where
  "example_encodeFunctionData paymentHash timelock tokenAddress amount =
     (if (paymentHash, tokenAddress, amount) =
           (''0x1111111111111111111111111111111111111111111111111111111111111111'',
            ''0x0987654321098765432109876543210987654321'',
            ''1000000000000000000'')
      then
        (if timelock = 1700086400 then
           Inr (''0x88890003''
                @ ''1111111111111111111111111111111111111111111111111111111111111111''
                @ ''0000000000000000000000000000000000000000000000000000000065554280''
                @ ''0000000000000000000000000987654321098765432109876543210987654321''
                @ ''0000000000000000000000000000000000000000000000000de0b6b3a7640000'')
         else if timelock = 1699999995 then
           Inr (''0x88890003''
                @ ''1111111111111111111111111111111111111111111111111111111111111111''
                @ ''000000000000000000000000000000000000000000000000000000006553f0fb''
                @ ''0000000000000000000000000987654321098765432109876543210987654321''
                @ ''0000000000000000000000000000000000000000000000000de0b6b3a7640000'')
         else Inl (JsError ''value not tabulated''))
      else Inl (JsError ''value not tabulated''))"

definition example_htlc_world :: htlc_world where
  "example_htlc_world =
     \<lparr>hw_Date_now = 1700000005250,
      BigNumber_from = (\<lambda>s. if s = ''1000000000000000000'' then Inr 1000000000000000000
                             else Inl (JsError ''invalid BigNumber string'')),
      balanceOf = Inr 2000000000000000000,
      allowance = Inr 2000000000000000000,
      estimateGas_createHTLCToken = Inr 100000,
      encodeFunctionData = example_encodeFunctionData,
      getTransactionCount = Inr 0,
      getGasPrice = Inr 1000000000,
      estimateGas = Inr 100000,
      contractCall = Inr ''0xtxhash123456789'',
      keccak256_solidityPack = example_keccak256_solidityPack,
      waitForTransaction = Inr (Some example_receipt)\<rparr>"

text \<open>The provider mocked by the unit tests (\<open>vincent-ability.spec.ts\<close>) confirms with a
  receipt that has a status and a block number and no logs.\<close>

definition mock_receipt_world :: htlc_world where
  "mock_receipt_world =
     example_htlc_world\<lparr>waitForTransaction :=
       Inr (Some \<lparr>rc_status = Some 1, rc_blockNumber = 12345, rc_logs = []\<rparr>)\<rparr>"

text \<open>The example world with the local clock in the second of the block that holds the
  transaction.\<close>

definition block_second_world :: htlc_world where
  "block_second_world = example_htlc_world\<lparr>hw_Date_now := 1700000003999\<rparr>"


section \<open>Properties of the Invoice Commitment Step\<close>

lemma li_execute_failure_reason:
  "fst (li_execute w d p) = Failure f \<Longrightarrow> lf_reason f = INVOICE_CREATION_FAILED"
  by (auto simp: li_execute_def split: prod.splits sum.splits)

text \<open>
  C10. For every parameter set with \<open>amountSat > 0\<close>, \<open>nwcUri\<close> beginning with
  \<open>nostr+walletconnect://\<close> and \<open>expirySec \<ge> 60\<close>, the precheck of the Invoice Commitment Step
  succeeds with exactly \<open>{amountSat, canReceive: true, estimatedFee: 0}\<close> and sends nothing to
  the payment rail; its result is the same in every world, so two runs on the same
  parameters return identical results.
\<close>

theorem li_precheck_local_and_deterministic:
  assumes "0 < li_amountSat p"
    and "startsWith (li_nwcUri p) ''nostr+walletconnect://''"
    and "60 \<le> li_expirySec p"
  shows "li_precheck w p =
           (Success \<lparr>lps_amountSat = li_amountSat p, lps_canReceive = True, lps_estimatedFee = 0\<rparr>, [])
         \<and> li_precheck w' p = li_precheck w p"
  using assms by (simp add: li_precheck_def)

theorem li_precheck_local_and_deterministic_witness:
  "0 < li_amountSat \<lparr>li_amountSat = 1000, li_description = Some ''Test invoice'', li_expirySec = 3600,
          li_nwcUri = ''nostr+walletconnect://test-pubkey?relay=wss://relay.test.com&secret=test-secret''\<rparr>
   \<and> li_precheck example_li_world
        \<lparr>li_amountSat = 1000, li_description = Some ''Test invoice'', li_expirySec = 3600,
          li_nwcUri = ''nostr+walletconnect://test-pubkey?relay=wss://relay.test.com&secret=test-secret''\<rparr>
       = (Success \<lparr>lps_amountSat = 1000, lps_canReceive = True, lps_estimatedFee = 0\<rparr>, [])
   \<and> li_precheck (example_li_world\<lparr>getInfo := Inl NonError\<rparr>)
        \<lparr>li_amountSat = 1000, li_description = Some ''Test invoice'', li_expirySec = 3600,
          li_nwcUri = ''nostr+walletconnect://test-pubkey?relay=wss://relay.test.com&secret=test-secret''\<rparr>
       = li_precheck example_li_world
        \<lparr>li_amountSat = 1000, li_description = Some ''Test invoice'', li_expirySec = 3600,
          li_nwcUri = ''nostr+walletconnect://test-pubkey?relay=wss://relay.test.com&secret=test-secret''\<rparr>"
  using li_precheck_local_and_deterministic
    [of "\<lparr>li_amountSat = 1000, li_description = Some ''Test invoice'', li_expirySec = 3600,
          li_nwcUri = ''nostr+walletconnect://test-pubkey?relay=wss://relay.test.com&secret=test-secret''\<rparr>"
        example_li_world "example_li_world\<lparr>getInfo := Inl NonError\<rparr>"]
  by (simp add: startsWith_def)

text \<open>
  C8, as the code has it. The precheck looks at the descriptor's prefix only: with a positive
  amount, a descriptor that does not begin with \<open>nostr+walletconnect://\<close> fails with
  \<open>NWC_CONNECTION_FAILED\<close>. The execute handler has a single \<open>catch\<close>, so each of its failures
  carries \<open>INVOICE_CREATION_FAILED\<close>; a descriptor that does not parse, has another scheme or
  lacks \<open>relay\<close> or \<open>secret\<close> fails there with that reason before the rail is contacted.
\<close>

theorem li_descriptor_failure_reasons:
  "(0 < li_amountSat p \<and> \<not> startsWith (li_nwcUri p) ''nostr+walletconnect://'' \<longrightarrow>
      li_precheck w p =
        (Failure \<lparr>lf_error = ''Invalid NWC URI format. Must start with nostr+walletconnect://'',
                  lf_reason = NWC_CONNECTION_FAILED\<rparr>, []))
   \<and> (\<forall>f. fst (li_execute w d p) = Failure f \<longrightarrow> lf_reason f = INVOICE_CREATION_FAILED)
   \<and> ((case URL_new w (li_nwcUri p) of
          Inl e \<Rightarrow> True
        | Inr u \<Rightarrow> protocol u \<noteq> ''nostr+walletconnect:''
                   \<or> \<not> truthy_str (map_of (searchParams u) ''relay'')
                   \<or> \<not> truthy_str (map_of (searchParams u) ''secret'')) \<longrightarrow>
       (\<exists>e. li_execute w d p = (Failure \<lparr>lf_error = e, lf_reason = INVOICE_CREATION_FAILED\<rparr>, [])))"
proof (intro conjI)
  show "0 < li_amountSat p \<and> \<not> startsWith (li_nwcUri p) ''nostr+walletconnect://'' \<longrightarrow>
      li_precheck w p =
        (Failure \<lparr>lf_error = ''Invalid NWC URI format. Must start with nostr+walletconnect://'',
                  lf_reason = NWC_CONNECTION_FAILED\<rparr>, [])"
    by (simp add: li_precheck_def)
next
  show "\<forall>f. fst (li_execute w d p) = Failure f \<longrightarrow> lf_reason f = INVOICE_CREATION_FAILED"
    using li_execute_failure_reason by blast
next
  show "(case URL_new w (li_nwcUri p) of
          Inl e \<Rightarrow> True
        | Inr u \<Rightarrow> protocol u \<noteq> ''nostr+walletconnect:''
                   \<or> \<not> truthy_str (map_of (searchParams u) ''relay'')
                   \<or> \<not> truthy_str (map_of (searchParams u) ''secret'')) \<longrightarrow>
       (\<exists>e. li_execute w d p = (Failure \<lparr>lf_error = e, lf_reason = INVOICE_CREATION_FAILED\<rparr>, []))"
    by (auto simp: li_execute_def li_execute_body_def Let_def split: sum.splits)
qed

theorem li_descriptor_failure_reasons_witness:
  "li_precheck example_li_world
     \<lparr>li_amountSat = 1000, li_description = None, li_expirySec = 3600,
       li_nwcUri = ''https://invalid-protocol.com''\<rparr>
     = (Failure \<lparr>lf_error = ''Invalid NWC URI format. Must start with nostr+walletconnect://'',
                 lf_reason = NWC_CONNECTION_FAILED\<rparr>, [])
   \<and> li_execute example_li_world example_delegation
     \<lparr>li_amountSat = 1000, li_description = None, li_expirySec = 3600,
       li_nwcUri = ''https://invalid-protocol.com''\<rparr>
     = (Failure \<lparr>lf_error = ''Invalid NWC URI protocol'', lf_reason = INVOICE_CREATION_FAILED\<rparr>, [])"
  using li_descriptor_failure_reasons
    [of "\<lparr>li_amountSat = 1000, li_description = None, li_expirySec = 3600,
          li_nwcUri = ''https://invalid-protocol.com''\<rparr>" example_li_world example_delegation]
  by (simp add: startsWith_def example_li_world_def example_URL_new_def li_execute_def
      li_execute_body_def)

text \<open>
  C8 as stated fails: on the descriptor \<open>nostr+walletconnect://test-pubkey\<close>, which lacks both
  \<open>relay\<close> and \<open>secret\<close>, the precheck succeeds and execute fails with
  \<open>INVOICE_CREATION_FAILED\<close>.
\<close>

theorem li_malformed_descriptor_counterexample:
  "li_precheck example_li_world
     \<lparr>li_amountSat = 1000, li_description = None, li_expirySec = 3600,
       li_nwcUri = ''nostr+walletconnect://test-pubkey''\<rparr>
     = (Success \<lparr>lps_amountSat = 1000, lps_canReceive = True, lps_estimatedFee = 0\<rparr>, [])
   \<and> li_execute example_li_world example_delegation
     \<lparr>li_amountSat = 1000, li_description = None, li_expirySec = 3600,
       li_nwcUri = ''nostr+walletconnect://test-pubkey''\<rparr>
     = (Failure \<lparr>lf_error = ''NWC URI missing required parameters'',
                 lf_reason = INVOICE_CREATION_FAILED\<rparr>, [])"
  by (simp add: li_precheck_def startsWith_def example_li_world_def example_URL_new_def
      li_execute_def li_execute_body_def)

section \<open>Properties of Invoice Validation and the Settlement Step\<close>

subsection \<open>Auxiliary facts\<close>

lemma lp_execute_body_paid:
  assumes "Invoice_new w (lp_paymentRequest p) = Inr invoice"
    and "connect w (lp_nwcUri p) m = (Inr (), m', calls)"
    and "payInvoice w m' (lp_paymentRequest p) = (paymentPromise, calls')"
    and "await_payment (lp_timeoutSeconds p) paymentPromise = Some (Inr paymentResult)"
  shows "lp_execute_body w m p = Some (payment_result w invoice paymentResult, m', calls @ calls')"
  using assms by (simp add: lp_execute_body_def)

lemma lp_execute_body_not_paid:
  assumes "Invoice_new w (lp_paymentRequest p) = Inr invoice"
    and "connect w (lp_nwcUri p) m = (Inr (), m', calls)"
    and "payInvoice w m' (lp_paymentRequest p) = (paymentPromise, calls')"
    and "await_payment (lp_timeoutSeconds p) paymentPromise = Some (Inl e)"
  shows "lp_execute_body w m p = Some (Inl e, m', calls @ calls')"
  using assms by (simp add: lp_execute_body_def)

lemma lp_execute_body_waits:
  assumes "Invoice_new w (lp_paymentRequest p) = Inr invoice"
    and "connect w (lp_nwcUri p) m = (Inr (), m', calls)"
    and "payInvoice w m' (lp_paymentRequest p) = (paymentPromise, calls')"
    and "await_payment (lp_timeoutSeconds p) paymentPromise = None"
  shows "lp_execute_body w m p = None"
  using assms by (simp add: lp_execute_body_def)

lemma payment_result_success_length:
  "payment_result w invoice paymentResult = Inr r \<Longrightarrow> length (es_preimage r) = 64"
  by (cases "res_preimage paymentResult")
     (auto simp: payment_result_def Let_def split: if_splits)

lemma lp_execute_success_length:
  assumes "lp_execute w m p = Some (Success r, st)"
  shows "length (es_preimage r) = 64"
proof -
  from assms obtain m' calls where body: "lp_execute_body w m p = Some (Inr r, m', calls)"
    by (auto simp: lp_execute_def split: option.splits prod.splits sum.splits)
  then obtain invoice paymentResult where "payment_result w invoice paymentResult = Inr r"
    by (auto simp: lp_execute_body_def split: sum.splits prod.splits option.splits)
  then show ?thesis by (rule payment_result_success_length)
qed

lemma liquidity_check_failure_reason:
  "liquidity_check w m nwcUri amountSat = (Inl f, st) \<Longrightarrow> pcf_reason f = INSUFFICIENT_LIQUIDITY"
  by (auto simp: liquidity_check_def split: prod.splits sum.splits if_splits)

lemma sha256_hex_zero_preimage:
  "sha256_hex ''0000000000000000000000000000000000000000000000000000000000000000''
     = ''66687aadf862bd776c8fc18b8e9f8e20089714856ee233b3902a591d0d5f2925''"
  by code_simp

lemma hexRegex_test_iff: "hexRegex_test s \<longleftrightarrow> length s = 64 \<and> list_all is_hex_char s"
  by (simp add: hexRegex_test_def)

lemmas lp_example_defs =
  example_lp_world_def example_lp_params_def example_invoice_def fresh_manager_def
  connected_manager_def short_preimage_world_def non_hex_preimage_world_def
  slow_rail_world_def silent_rail_world_def no_expiry_world_def

lemmas lp_handler_defs =
  lp_execute_def lp_execute_body_def lp_execute_catch_def payment_result_def connect_def
  payInvoice_def invoice_amountSat_def setTimeout_delay_def Let_def



lemma setTimeout_delay_le: "0 < ms \<Longrightarrow> setTimeout_delay ms \<le> ms"
  by (simp add: setTimeout_delay_def)

lemma await_payment_resolved:
  "await_payment timeoutSeconds paymentPromise = Some (Inr paymentResult) \<Longrightarrow>
     \<exists>d. paymentPromise = Settles d (Inr paymentResult)"
  by (cases timeoutSeconds; cases paymentPromise) (auto split: if_splits)

lemma payInvoice_amount:
  "payInvoice w m invoice = (Settles d (Inr paymentResult), calls) \<Longrightarrow> res_amount paymentResult = 0"
  by (auto simp: payInvoice_def split: if_splits promise.splits sum.splits)

lemma example_params_parse:
  "abilityParamsSchema example_lp_params = Some example_lp_params"
  "abilityParamsSchema (example_lp_params\<lparr>lp_timeoutSeconds := None\<rparr>) = Some example_lp_params"
proof -
  have format: "invoice_format_ok ''lnbc1500n1example''"
    by (simp add: invoice_format_ok_def startsWith_def lower_char_def is_alnum_lower_def)
  show "abilityParamsSchema example_lp_params = Some example_lp_params"
    using format by (simp add: abilityParamsSchema_def example_lp_params_def)
  show "abilityParamsSchema (example_lp_params\<lparr>lp_timeoutSeconds := None\<rparr>) = Some example_lp_params"
    using format by (simp add: abilityParamsSchema_def example_lp_params_def)
qed

text \<open>A preimage of the wrong length: when the rail's call resolves with a preimage that is
  missing, \<open>null\<close>, empty or not exactly 64 characters long, the handler fails with
  \<open>PAYMENT_FAILED\<close>; every success payload of the handler has a preimage of 64 characters.\<close>

lemma lp_execute_wrong_length_preimage:
  assumes "Invoice_new w (lp_paymentRequest p) = Inr invoice"
    and "connect w (lp_nwcUri p) m = (Inr (), m', calls)"
    and "payInvoice w m' (lp_paymentRequest p) = (paymentPromise, calls')"
    and "await_payment (lp_timeoutSeconds p) paymentPromise = Some (Inr paymentResult)"
    and "preimage_rejected (res_preimage paymentResult)"
  shows "lp_execute w m p =
      Some (Failure \<lparr>ef_error = ''Payment execution failed: Invalid preimage received: ''
                                 @ show_preimage (res_preimage paymentResult),
                      ef_reason = PAYMENT_FAILED,
                      ef_paymentHash = Some (di_paymentHash invoice)\<rparr>,
            m', calls @ calls')"
proof -
  have "lp_execute_body w m p = Some (payment_result w invoice paymentResult, m', calls @ calls')"
    using assms(1-4) by (rule lp_execute_body_paid)
  moreover have "payment_result w invoice paymentResult =
      Inl (JsError (''Invalid preimage received: '' @ show_preimage (res_preimage paymentResult)))"
    using assms(5) by (simp add: payment_result_def Let_def)
  ultimately show ?thesis
    using assms(1) by (simp add: lp_execute_def lp_execute_catch_def)
qed

lemma lp_execute_short_preimage:
  "lp_execute short_preimage_world fresh_manager example_lp_params
     = Some (Failure \<lparr>ef_error = ''Payment execution failed: Invalid preimage received: 0123456789abcdef0123456789abcdef'',
                      ef_reason = PAYMENT_FAILED,
                      ef_paymentHash = Some ''1111111111111111111111111111111111111111111111111111111111111111''\<rparr>,
             connected_manager, [WGetInfo, WPayInvoice ''lnbc1500n1example''])"
  by (simp add: lp_example_defs lp_handler_defs)

lemma vincentAbility_execute_short_preimage:
  "vincentAbility_execute short_preimage_world fresh_manager example_lp_params
     = Inr (Some (Failure \<lparr>ef_error = ''Payment execution failed: Invalid preimage received: 0123456789abcdef0123456789abcdef'',
                           ef_reason = PAYMENT_FAILED,
                           ef_paymentHash = Some ''1111111111111111111111111111111111111111111111111111111111111111''\<rparr>,
                  connected_manager, [WGetInfo, WPayInvoice ''lnbc1500n1example'']))"
  by (simp add: vincentAbility_execute_def example_params_parse(1) lp_execute_short_preimage
      executeFailSchema_def)

subsection \<open>The preimage returned by the rail\<close>

text \<open>
  C1, as the code has it. Execute performs no comparison of the digest of the preimage with
  the payment hash. Whenever the parameters pass the schema, the invoice decodes to a
  positive amount and a payment hash of 64 hexadecimal characters, the wallet connects and
  the rail's \<open>payInvoice\<close> resolves (by the time the timer is due, if there is one) with a
  preimage of 64 hexadecimal characters, execute reports success, whatever the digest of the
  preimage; the payload carries that preimage next to the payment hash of the decoded
  invoice.
\<close>

theorem lp_execute_trusts_rail_preimage:
  assumes "abilityParamsSchema p0 = Some p"
    and "Invoice_new w (lp_paymentRequest p) = Inr invoice"
    and "connect w (lp_nwcUri p) m = (Inr (), m', calls)"
    and "payInvoice w m' (lp_paymentRequest p) = (paymentPromise, calls')"
    and "await_payment (lp_timeoutSeconds p) paymentPromise = Some (Inr paymentResult)"
    and "res_preimage paymentResult = JsString preimage"
    and "hex64_pattern preimage"
    and "hex64_pattern (di_paymentHash invoice)"
    and "0 < invoice_amountSat invoice"
  shows "lp_execute w m p =
           Some (Success \<lparr>es_preimage = preimage,
                           es_paymentHash = di_paymentHash invoice,
                           es_amountSat = invoice_amountSat invoice,
                           es_feeSat = 0,
                           es_totalSat = invoice_amountSat invoice,
                           es_timestamp = lp_Date_now w 2,
                           es_status = ''SUCCEEDED''\<rparr>, m', calls @ calls')
         \<and> vincentAbility_execute w m p0 =
           Inr (Some (Success \<lparr>es_preimage = preimage,
                                es_paymentHash = di_paymentHash invoice,
                                es_amountSat = invoice_amountSat invoice,
                                es_feeSat = 0,
                                es_totalSat = invoice_amountSat invoice,
                                es_timestamp = lp_Date_now w 2,
                                es_status = ''SUCCEEDED''\<rparr>, m', calls @ calls'))"
proof -
  from assms(5) obtain d where "paymentPromise = Settles d (Inr paymentResult)"
    using await_payment_resolved by blast
  with assms(4) have amount: "res_amount paymentResult = 0"
    using payInvoice_amount by blast
  have body: "lp_execute_body w m p =
          Some (payment_result w invoice paymentResult, m', calls @ calls')"
    using assms(2-5) by (rule lp_execute_body_paid)
  have len: "length preimage = 64" "preimage \<noteq> []"
    using assms(7) by (auto simp: hex64_pattern_def)
  have result: "payment_result w invoice paymentResult =
      Inr \<lparr>es_preimage = preimage,
           es_paymentHash = di_paymentHash invoice,
           es_amountSat = invoice_amountSat invoice,
           es_feeSat = 0,
           es_totalSat = invoice_amountSat invoice,
           es_timestamp = lp_Date_now w 2,
           es_status = ''SUCCEEDED''\<rparr>"
    using assms(6) amount len by (simp add: payment_result_def Let_def)
  have handler: "lp_execute w m p =
           Some (Success \<lparr>es_preimage = preimage,
                           es_paymentHash = di_paymentHash invoice,
                           es_amountSat = invoice_amountSat invoice,
                           es_feeSat = 0,
                           es_totalSat = invoice_amountSat invoice,
                           es_timestamp = lp_Date_now w 2,
                           es_status = ''SUCCEEDED''\<rparr>, m', calls @ calls')"
    using body result by (simp add: lp_execute_def)
  have schema: "executeSuccessSchema \<lparr>es_preimage = preimage,
                           es_paymentHash = di_paymentHash invoice,
                           es_amountSat = invoice_amountSat invoice,
                           es_feeSat = 0,
                           es_totalSat = invoice_amountSat invoice,
                           es_timestamp = lp_Date_now w 2,
                           es_status = ''SUCCEEDED''\<rparr>"
    using assms(7-9) by (simp add: executeSuccessSchema_def)
  show ?thesis
    using handler schema assms(1) by (simp add: vincentAbility_execute_def)
qed

theorem lp_execute_trusts_rail_preimage_witness:
  "lp_execute example_lp_world fresh_manager example_lp_params
     = Some (Success \<lparr>es_preimage = ''0000000000000000000000000000000000000000000000000000000000000000'',
                      es_paymentHash = ''1111111111111111111111111111111111111111111111111111111111111111'',
                      es_amountSat = 150, es_feeSat = 0, es_totalSat = 150,
                      es_timestamp = 1700000002400, es_status = ''SUCCEEDED''\<rparr>,
             connected_manager, [WGetInfo, WPayInvoice ''lnbc1500n1example''])
   \<and> vincentAbility_execute example_lp_world fresh_manager example_lp_params
     = Inr (Some (Success \<lparr>es_preimage = ''0000000000000000000000000000000000000000000000000000000000000000'',
                      es_paymentHash = ''1111111111111111111111111111111111111111111111111111111111111111'',
                      es_amountSat = 150, es_feeSat = 0, es_totalSat = 150,
                      es_timestamp = 1700000002400, es_status = ''SUCCEEDED''\<rparr>,
                  connected_manager, [WGetInfo, WPayInvoice ''lnbc1500n1example'']))"
proof -
  have h2: "Invoice_new example_lp_world (lp_paymentRequest example_lp_params) = Inr example_invoice"
    by (simp add: lp_example_defs)
  have h3: "connect example_lp_world (lp_nwcUri example_lp_params) fresh_manager
              = (Inr (), connected_manager, [WGetInfo])"
    by (simp add: lp_example_defs connect_def)
  have h4: "payInvoice example_lp_world connected_manager (lp_paymentRequest example_lp_params)
              = (Settles 1200 (Inr \<lparr>res_preimage = JsString ''0000000000000000000000000000000000000000000000000000000000000000'', res_amount = 0\<rparr>),
                 [WPayInvoice ''lnbc1500n1example''])"
    by (simp add: lp_example_defs payInvoice_def)
  have h5: "await_payment (lp_timeoutSeconds example_lp_params)
              (Settles 1200 (Inr \<lparr>res_preimage = JsString ''0000000000000000000000000000000000000000000000000000000000000000'', res_amount = 0\<rparr>))
              = Some (Inr \<lparr>res_preimage = JsString ''0000000000000000000000000000000000000000000000000000000000000000'', res_amount = 0\<rparr>)"
    by (simp add: lp_example_defs setTimeout_delay_def)
  have h6: "res_preimage \<lparr>res_preimage = JsString ''0000000000000000000000000000000000000000000000000000000000000000'', res_amount = 0\<rparr> = JsString ''0000000000000000000000000000000000000000000000000000000000000000''"
    by simp
  have h7: "hex64_pattern ''0000000000000000000000000000000000000000000000000000000000000000''"
    by (simp add: hex64_pattern_def is_hex_char_def)
  have h8: "hex64_pattern (di_paymentHash example_invoice)"
    by (simp add: hex64_pattern_def is_hex_char_def example_invoice_def)
  have h9: "0 < invoice_amountSat example_invoice"
    by (simp add: invoice_amountSat_def example_invoice_def)
  show ?thesis
    using lp_execute_trusts_rail_preimage [OF example_params_parse(1) h2 h3 h4 h5 h6 h7 h8 h9]
    by (simp add: example_invoice_def invoice_amountSat_def example_lp_world_def)
qed

text \<open>
  C1 as stated fails: the rail answers an invoice whose payment hash is \<open>11\<dots>1\<close> with the
  preimage \<open>00\<dots>0\<close>, whose SHA-256 digest is \<open>66687aad\<dots>\<close>, and execute reports success,
  as the handler and as the exported operation.
\<close>

theorem lp_execute_unverified_preimage_counterexample:
  "lp_execute example_lp_world fresh_manager example_lp_params
     = Some (Success \<lparr>es_preimage = ''0000000000000000000000000000000000000000000000000000000000000000'',
                      es_paymentHash = ''1111111111111111111111111111111111111111111111111111111111111111'',
                      es_amountSat = 150, es_feeSat = 0, es_totalSat = 150,
                      es_timestamp = 1700000002400, es_status = ''SUCCEEDED''\<rparr>,
             connected_manager, [WGetInfo, WPayInvoice ''lnbc1500n1example''])
   \<and> sha256_hex ''0000000000000000000000000000000000000000000000000000000000000000''
       \<noteq> ''1111111111111111111111111111111111111111111111111111111111111111''
   \<and> vincentAbility_execute example_lp_world fresh_manager example_lp_params
     = Inr (Some (Success \<lparr>es_preimage = ''0000000000000000000000000000000000000000000000000000000000000000'',
                      es_paymentHash = ''1111111111111111111111111111111111111111111111111111111111111111'',
                      es_amountSat = 150, es_feeSat = 0, es_totalSat = 150,
                      es_timestamp = 1700000002400, es_status = ''SUCCEEDED''\<rparr>,
                  connected_manager, [WGetInfo, WPayInvoice ''lnbc1500n1example'']))"
proof -
  have run: "lp_execute example_lp_world fresh_manager example_lp_params
     = Some (Success \<lparr>es_preimage = ''0000000000000000000000000000000000000000000000000000000000000000'',
                      es_paymentHash = ''1111111111111111111111111111111111111111111111111111111111111111'',
                      es_amountSat = 150, es_feeSat = 0, es_totalSat = 150,
                      es_timestamp = 1700000002400, es_status = ''SUCCEEDED''\<rparr>,
             connected_manager, [WGetInfo, WPayInvoice ''lnbc1500n1example''])"
    by (simp add: lp_example_defs lp_handler_defs)
  have digest: "sha256_hex ''0000000000000000000000000000000000000000000000000000000000000000''
       \<noteq> ''1111111111111111111111111111111111111111111111111111111111111111''"
    unfolding sha256_hex_zero_preimage by simp
  have schema: "executeSuccessSchema \<lparr>es_preimage = ''0000000000000000000000000000000000000000000000000000000000000000'',
                      es_paymentHash = ''1111111111111111111111111111111111111111111111111111111111111111'',
                      es_amountSat = 150, es_feeSat = 0, es_totalSat = 150,
                      es_timestamp = 1700000002400, es_status = ''SUCCEEDED''\<rparr>"
    by (simp add: executeSuccessSchema_def hex64_pattern_def is_hex_char_def)
  have exported: "vincentAbility_execute example_lp_world fresh_manager example_lp_params
     = Inr (Some (Success \<lparr>es_preimage = ''0000000000000000000000000000000000000000000000000000000000000000'',
                      es_paymentHash = ''1111111111111111111111111111111111111111111111111111111111111111'',
                      es_amountSat = 150, es_feeSat = 0, es_totalSat = 150,
                      es_timestamp = 1700000002400, es_status = ''SUCCEEDED''\<rparr>,
                  connected_manager, [WGetInfo, WPayInvoice ''lnbc1500n1example'']))"
    by (simp add: vincentAbility_execute_def example_params_parse(1) run schema)
  from run digest exported show ?thesis by blast
qed

text \<open>
  C4. A response whose preimage is not exactly 64 hexadecimal characters is to be rejected
  with \<open>PAYMENT_FAILED\<close>. The handler's guard looks at the length only: the preimage of 64
  letters \<open>z\<close> passes it and is handed to \<open>succeed\<close>. The exported operation then refuses the
  payload, which its success schema does not admit, and ends with
  \<open>Invalid execute result.\<close>, not with \<open>PAYMENT_FAILED\<close>.
\<close>

theorem lp_non_hex_preimage_passes_guard:
  "\<not> hex64_pattern ''zzzzzzzzzzzzzzzzzzzzzzzzzzzzzzzzzzzzzzzzzzzzzzzzzzzzzzzzzzzzzzzz''
   \<and> lp_execute non_hex_preimage_world fresh_manager example_lp_params
     = Some (Success \<lparr>es_preimage = ''zzzzzzzzzzzzzzzzzzzzzzzzzzzzzzzzzzzzzzzzzzzzzzzzzzzzzzzzzzzzzzzz'',
                      es_paymentHash = ''1111111111111111111111111111111111111111111111111111111111111111'',
                      es_amountSat = 150, es_feeSat = 0, es_totalSat = 150,
                      es_timestamp = 1700000002400, es_status = ''SUCCEEDED''\<rparr>,
             connected_manager, [WGetInfo, WPayInvoice ''lnbc1500n1example''])
   \<and> vincentAbility_execute non_hex_preimage_world fresh_manager example_lp_params
     = Inl (Invalid_execute_result connected_manager [WGetInfo, WPayInvoice ''lnbc1500n1example''])"
proof -
  have not_hex: "\<not> hex64_pattern ''zzzzzzzzzzzzzzzzzzzzzzzzzzzzzzzzzzzzzzzzzzzzzzzzzzzzzzzzzzzzzzzz''"
    by (simp add: hex64_pattern_def is_hex_char_def)
  have run: "lp_execute non_hex_preimage_world fresh_manager example_lp_params
     = Some (Success \<lparr>es_preimage = ''zzzzzzzzzzzzzzzzzzzzzzzzzzzzzzzzzzzzzzzzzzzzzzzzzzzzzzzzzzzzzzzz'',
                      es_paymentHash = ''1111111111111111111111111111111111111111111111111111111111111111'',
                      es_amountSat = 150, es_feeSat = 0, es_totalSat = 150,
                      es_timestamp = 1700000002400, es_status = ''SUCCEEDED''\<rparr>,
             connected_manager, [WGetInfo, WPayInvoice ''lnbc1500n1example''])"
    by (simp add: lp_example_defs lp_handler_defs)
  have schema: "\<not> executeSuccessSchema \<lparr>es_preimage = ''zzzzzzzzzzzzzzzzzzzzzzzzzzzzzzzzzzzzzzzzzzzzzzzzzzzzzzzzzzzzzzzz'',
                      es_paymentHash = ''1111111111111111111111111111111111111111111111111111111111111111'',
                      es_amountSat = 150, es_feeSat = 0, es_totalSat = 150,
                      es_timestamp = 1700000002400, es_status = ''SUCCEEDED''\<rparr>"
    using not_hex by (simp add: executeSuccessSchema_def)
  have exported: "vincentAbility_execute non_hex_preimage_world fresh_manager example_lp_params
     = Inl (Invalid_execute_result connected_manager [WGetInfo, WPayInvoice ''lnbc1500n1example''])"
    by (simp add: vincentAbility_execute_def example_params_parse(1) run schema)
  from not_hex run exported show ?thesis by blast
qed

subsection \<open>Invoice Validation\<close>

text \<open>
  C5. For every decodable, unexpired invoice and every supplied (non-zero)
  \<open>expectedAmountSat\<close>: if it differs from the decoded amount, the precheck fails with
  \<open>AMOUNT_MISMATCH\<close>; if it equals the decoded amount, the precheck does not fail with
  \<open>AMOUNT_MISMATCH\<close>, and when it succeeds it reports that amount as \<open>amountSat\<close>.
  The schema declares \<open>expectedAmountSat\<close> positive, so a supplied value is never zero.
\<close>

theorem lp_precheck_amount_check:
  assumes "Invoice_new w (lp_paymentRequest p) = Inr invoice"
    and "invoice_expiresAt invoice = 0 \<or> lp_Date_now w 0 \<le> invoice_expiresAt invoice"
    and "lp_expectedAmountSat p = Some expectedAmountSat"
    and "expectedAmountSat \<noteq> 0"
  shows "(expectedAmountSat \<noteq> invoice_amountSat invoice \<longrightarrow>
            lp_precheck w m p =
              (Failure \<lparr>pcf_error = ''Invoice amount ('' @ show_int (invoice_amountSat invoice)
                                        @ '' sat) does not match expected amount (''
                                        @ show_int expectedAmountSat @ '' sat)'',
                        pcf_reason = AMOUNT_MISMATCH\<rparr>, m, []))
       \<and> (expectedAmountSat = invoice_amountSat invoice \<longrightarrow>
            (\<forall>f st. lp_precheck w m p = (Failure f, st) \<longrightarrow> pcf_reason f \<noteq> AMOUNT_MISMATCH)
            \<and> (\<forall>s st. lp_precheck w m p = (Success s, st) \<longrightarrow> pcs_amountSat s = expectedAmountSat))"
proof (intro conjI impI allI)
  assume "expectedAmountSat \<noteq> invoice_amountSat invoice"
  with assms show "lp_precheck w m p =
              (Failure \<lparr>pcf_error = ''Invoice amount ('' @ show_int (invoice_amountSat invoice)
                                        @ '' sat) does not match expected amount (''
                                        @ show_int expectedAmountSat @ '' sat)'',
                        pcf_reason = AMOUNT_MISMATCH\<rparr>, m, [])"
    by (auto simp: lp_precheck_def Let_def)
next
  fix f st
  assume eq: "expectedAmountSat = invoice_amountSat invoice"
    and fl: "lp_precheck w m p = (Failure f, st)"
  from assms eq fl obtain st' where
    "liquidity_check w m (lp_nwcUri p) (invoice_amountSat invoice) = (Inl f, st')"
    by (auto simp: lp_precheck_def Let_def split: prod.splits sum.splits if_splits)
  then have "pcf_reason f = INSUFFICIENT_LIQUIDITY"
    by (rule liquidity_check_failure_reason)
  then show "pcf_reason f \<noteq> AMOUNT_MISMATCH" by simp
next
  fix s st
  assume eq: "expectedAmountSat = invoice_amountSat invoice"
    and su: "lp_precheck w m p = (Success s, st)"
  with assms show "pcs_amountSat s = expectedAmountSat"
    by (auto simp: lp_precheck_def Let_def split: prod.splits sum.splits if_splits)
qed


theorem lp_precheck_amount_check_witness:
  "lp_precheck example_lp_world fresh_manager (example_lp_params\<lparr>lp_expectedAmountSat := Some 200\<rparr>)
     = (Failure \<lparr>pcf_error = ''Invoice amount (150 sat) does not match expected amount (200 sat)'',
                 pcf_reason = AMOUNT_MISMATCH\<rparr>, fresh_manager, [])
   \<and> lp_precheck example_lp_world fresh_manager (example_lp_params\<lparr>lp_expectedAmountSat := Some 150\<rparr>)
     = (Success \<lparr>pcs_invoiceValid = True,
                 pcs_paymentHash = ''1111111111111111111111111111111111111111111111111111111111111111'',
                 pcs_amountSat = 150,
                 pcs_destination = ''unknown'',
                 pcs_description = ''swap'',
                 pcs_expiresAt = 1700003600000,
                 pcs_availableLiquidity = Some 100000,
                 pcs_estimatedFee = Some 1\<rparr>, connected_manager, [WGetInfo, WGetBalance])"
proof -
  have h1: "Invoice_new example_lp_world
              (lp_paymentRequest (example_lp_params\<lparr>lp_expectedAmountSat := Some e\<rparr>)) = Inr example_invoice"
    for e by (simp add: lp_example_defs)
  have h2: "invoice_expiresAt example_invoice = 0
              \<or> lp_Date_now example_lp_world 0 \<le> invoice_expiresAt example_invoice"
    by (simp add: lp_example_defs invoice_expiresAt_def)
  have h3: "lp_expectedAmountSat (example_lp_params\<lparr>lp_expectedAmountSat := Some e\<rparr>) = Some e"
    for e by simp
  have amount: "invoice_amountSat example_invoice = 150"
    by (simp add: invoice_amountSat_def example_invoice_def)
  have digits: "show_int 150 = ''150''" "show_int 200 = ''200''"
    by (simp_all add: show_int_def show_nat.simps digit_char_def)
  have scenario_B: "lp_precheck example_lp_world fresh_manager
                      (example_lp_params\<lparr>lp_expectedAmountSat := Some 200\<rparr>)
     = (Failure \<lparr>pcf_error = ''Invoice amount (150 sat) does not match expected amount (200 sat)'',
                 pcf_reason = AMOUNT_MISMATCH\<rparr>, fresh_manager, [])"
    using lp_precheck_amount_check [OF h1 h2 h3, of 200 fresh_manager]
    by (simp add: amount digits)
  have run_A: "lp_precheck example_lp_world fresh_manager (example_lp_params\<lparr>lp_expectedAmountSat := Some 150\<rparr>)
     = (Success \<lparr>pcs_invoiceValid = True,
                 pcs_paymentHash = ''1111111111111111111111111111111111111111111111111111111111111111'',
                 pcs_amountSat = 150,
                 pcs_destination = ''unknown'',
                 pcs_description = ''swap'',
                 pcs_expiresAt = 1700003600000,
                 pcs_availableLiquidity = Some 100000,
                 pcs_estimatedFee = Some 1\<rparr>, connected_manager, [WGetInfo, WGetBalance])"
    by (simp add: lp_example_defs lp_precheck_def liquidity_check_def connect_def getBalance_def
        invoice_amountSat_def invoice_description_def invoice_expiresAt_def Let_def)
  from scenario_B run_A show ?thesis by blast
qed

text \<open>
  C6, as the code has it. For every decodable invoice that carries an expiry date whose time
  value is not 0 and lies in the past when the precheck reads the clock, the precheck fails
  with \<open>INVOICE_EXPIRED\<close>. An invoice without expiry date has \<open>expiresAt = 0\<close> for the handler,
  which its guard \<open>expiresAt &&\<close> exempts: such an invoice is never reported as expired, and
  a successful precheck returns \<open>expiresAt = 0\<close>.
\<close>

theorem lp_precheck_expiry_check:
  "(Invoice_new w (lp_paymentRequest p) = Inr invoice
      \<and> di_expiryDate invoice = Some expiresAt \<and> expiresAt \<noteq> 0
      \<and> expiresAt < lp_Date_now w 0 \<longrightarrow>
      lp_precheck w m p =
        (Failure \<lparr>pcf_error = ''Invoice expired at '' @ toISOString w expiresAt,
                  pcf_reason = INVOICE_EXPIRED\<rparr>, m, []))
   \<and> (Invoice_new w2 (lp_paymentRequest p2) = Inr invoice2 \<and> invoice_expiresAt invoice2 = 0 \<longrightarrow>
      (\<forall>f st. lp_precheck w2 m2 p2 = (Failure f, st) \<longrightarrow> pcf_reason f \<noteq> INVOICE_EXPIRED)
      \<and> (\<forall>s st. lp_precheck w2 m2 p2 = (Success s, st) \<longrightarrow> pcs_expiresAt s = 0))"
proof (intro conjI impI allI)
  assume "Invoice_new w (lp_paymentRequest p) = Inr invoice
      \<and> di_expiryDate invoice = Some expiresAt \<and> expiresAt \<noteq> 0
      \<and> expiresAt < lp_Date_now w 0"
  then show "lp_precheck w m p =
        (Failure \<lparr>pcf_error = ''Invoice expired at '' @ toISOString w expiresAt,
                  pcf_reason = INVOICE_EXPIRED\<rparr>, m, [])"
    by (simp add: lp_precheck_def Let_def invoice_expiresAt_def)
next
  fix f st
  assume a: "Invoice_new w2 (lp_paymentRequest p2) = Inr invoice2 \<and> invoice_expiresAt invoice2 = 0"
    and fl: "lp_precheck w2 m2 p2 = (Failure f, st)"
  have "pcf_reason f = AMOUNT_MISMATCH \<or> pcf_reason f = INVALID_INVOICE
        \<or> (\<exists>st'. liquidity_check w2 m2 (lp_nwcUri p2) (invoice_amountSat invoice2) = (Inl f, st'))"
    using a fl by (auto simp: lp_precheck_def Let_def split: prod.splits sum.splits if_splits)
  then show "pcf_reason f \<noteq> INVOICE_EXPIRED"
    using liquidity_check_failure_reason by fastforce
next
  fix s st
  assume "Invoice_new w2 (lp_paymentRequest p2) = Inr invoice2 \<and> invoice_expiresAt invoice2 = 0"
    and "lp_precheck w2 m2 p2 = (Success s, st)"
  then show "pcs_expiresAt s = 0"
    by (auto simp: lp_precheck_def Let_def split: prod.splits sum.splits if_splits)
qed

theorem lp_precheck_expiry_check_witness:
  "lp_precheck expired_world fresh_manager example_lp_params
     = (Failure \<lparr>pcf_error = ''Invoice expired at 2023-11-14T23:13:20.000Z'',
                 pcf_reason = INVOICE_EXPIRED\<rparr>, fresh_manager, [])
   \<and> lp_precheck no_expiry_world fresh_manager example_lp_params
     = (Success \<lparr>pcs_invoiceValid = True,
                 pcs_paymentHash = ''1111111111111111111111111111111111111111111111111111111111111111'',
                 pcs_amountSat = 150,
                 pcs_destination = ''unknown'',
                 pcs_description = ''swap'',
                 pcs_expiresAt = 0,
                 pcs_availableLiquidity = Some 100000,
                 pcs_estimatedFee = Some 1\<rparr>,
        connected_manager, [WGetInfo, WGetBalance])
   \<and> pcs_expiresAt \<lparr>pcs_invoiceValid = True,
                 pcs_paymentHash = ''1111111111111111111111111111111111111111111111111111111111111111'',
                 pcs_amountSat = 150,
                 pcs_destination = ''unknown'',
                 pcs_description = ''swap'',
                 pcs_expiresAt = 0,
                 pcs_availableLiquidity = Some 100000,
                 pcs_estimatedFee = Some 1\<rparr> = 0"
proof -
  have h: "Invoice_new expired_world (lp_paymentRequest example_lp_params) = Inr example_invoice
      \<and> di_expiryDate example_invoice = Some 1700003600000 \<and> (1700003600000::int) \<noteq> 0
      \<and> 1700003600000 < lp_Date_now expired_world 0"
    by (simp add: lp_example_defs expired_world_def)
  have h2: "Invoice_new no_expiry_world (lp_paymentRequest example_lp_params)
              = Inr (example_invoice\<lparr>di_expiryDate := None\<rparr>)
      \<and> invoice_expiresAt (example_invoice\<lparr>di_expiryDate := None\<rparr>) = 0"
    by (simp add: lp_example_defs invoice_expiresAt_def)
  have run: "lp_precheck no_expiry_world fresh_manager example_lp_params
     = (Success \<lparr>pcs_invoiceValid = True,
                 pcs_paymentHash = ''1111111111111111111111111111111111111111111111111111111111111111'',
                 pcs_amountSat = 150,
                 pcs_destination = ''unknown'',
                 pcs_description = ''swap'',
                 pcs_expiresAt = 0,
                 pcs_availableLiquidity = Some 100000,
                 pcs_estimatedFee = Some 1\<rparr>,
        connected_manager, [WGetInfo, WGetBalance])"
    by (simp add: lp_example_defs lp_precheck_def liquidity_check_def connect_def getBalance_def
        invoice_amountSat_def invoice_description_def invoice_expiresAt_def Let_def)
  note both = lp_precheck_expiry_check
      [of expired_world example_lp_params example_invoice 1700003600000 fresh_manager
          no_expiry_world example_lp_params "example_invoice\<lparr>di_expiryDate := None\<rparr>" fresh_manager]
  have expired: "lp_precheck expired_world fresh_manager example_lp_params
     = (Failure \<lparr>pcf_error = ''Invoice expired at 2023-11-14T23:13:20.000Z'',
                 pcf_reason = INVOICE_EXPIRED\<rparr>, fresh_manager, [])"
    using both [THEN conjunct1, THEN mp, OF h]
    by (simp add: expired_world_def example_lp_world_def)
  have zero: "pcs_expiresAt \<lparr>pcs_invoiceValid = True,
                 pcs_paymentHash = ''1111111111111111111111111111111111111111111111111111111111111111'',
                 pcs_amountSat = 150,
                 pcs_destination = ''unknown'',
                 pcs_description = ''swap'',
                 pcs_expiresAt = 0,
                 pcs_availableLiquidity = Some 100000,
                 pcs_estimatedFee = Some 1\<rparr> = 0"
    using both [THEN conjunct2, THEN mp, OF h2] run by blast
  from expired run zero show ?thesis by blast
qed

text \<open>
  C6 as stated fails: an invoice without expiry date has \<open>expiresAt = 0\<close>, which lies in the
  past of every clock reading after 1970, and the precheck succeeds on it.
\<close>

theorem lp_precheck_no_expiry_counterexample:
  "invoice_expiresAt (example_invoice\<lparr>di_expiryDate := None\<rparr>) < lp_Date_now no_expiry_world 0
   \<and> Invoice_new no_expiry_world (lp_paymentRequest example_lp_params)
       = Inr (example_invoice\<lparr>di_expiryDate := None\<rparr>)
   \<and> lp_precheck no_expiry_world fresh_manager example_lp_params
     = (Success \<lparr>pcs_invoiceValid = True,
                 pcs_paymentHash = ''1111111111111111111111111111111111111111111111111111111111111111'',
                 pcs_amountSat = 150,
                 pcs_destination = ''unknown'',
                 pcs_description = ''swap'',
                 pcs_expiresAt = 0,
                 pcs_availableLiquidity = Some 100000,
                 pcs_estimatedFee = Some 1\<rparr>,
        connected_manager, [WGetInfo, WGetBalance])"
  by (simp add: lp_example_defs lp_precheck_def liquidity_check_def connect_def getBalance_def
      invoice_amountSat_def invoice_description_def invoice_expiresAt_def Let_def)

subsection \<open>The payment timeout\<close>

text \<open>
  C7, as the code has it. The parameter schema gives \<open>timeoutSeconds\<close> the default 60, so a
  parameter set without it is parsed into one with a timeout of 60 seconds. When the handler
  has a non-zero \<open>timeoutSeconds\<close> and the timer elapses before the payment settles, or the
  payment never settles, execute fails with \<open>PAYMENT_FAILED\<close> and the message
  \<open>Payment timeout\<close>. The timer elapses after the delay \<open>setTimeout\<close> waits for; for a positive
  \<open>timeoutSeconds\<close> that is at most \<open>timeoutSeconds * 1000\<close> milliseconds. Only when the handler itself receives no \<open>timeoutSeconds\<close> (or zero) does
  it wait without a timer: then it never returns while the payment stays pending.
\<close>

theorem lp_execute_timeout_behaviour:
  "(abilityParamsSchema p0 = Some parsed \<and> lp_timeoutSeconds p0 = None \<longrightarrow>
      lp_timeoutSeconds parsed = Some 60)
   \<and> (Invoice_new w (lp_paymentRequest p) = Inr invoice
      \<and> connect w (lp_nwcUri p) m = (Inr (), m', calls)
      \<and> payInvoice w m' (lp_paymentRequest p) = (paymentPromise, calls')
      \<and> lp_timeoutSeconds p = Some timeoutSeconds \<and> timeoutSeconds \<noteq> 0
      \<and> (paymentPromise = Pending
          \<or> (\<exists>d r. paymentPromise = Settles d r
                 \<and> (setTimeout_delay (timeoutSeconds * 1000) < int d
                      \<or> 0 < timeoutSeconds \<and> timeoutSeconds * 1000 < int d))) \<longrightarrow>
      lp_execute w m p =
        Some (Failure \<lparr>ef_error = ''Payment execution failed: Payment timeout'',
                        ef_reason = PAYMENT_FAILED,
                        ef_paymentHash = Some (di_paymentHash invoice)\<rparr>,
              m', calls @ calls'))
   \<and> (Invoice_new w3 (lp_paymentRequest p3) = Inr invoice3
      \<and> connect w3 (lp_nwcUri p3) m3 = (Inr (), m3', calls3)
      \<and> payInvoice w3 m3' (lp_paymentRequest p3) = (Pending, calls3')
      \<and> \<not> truthy_num (lp_timeoutSeconds p3) \<longrightarrow>
      lp_execute w3 m3 p3 = None)"
proof (intro conjI impI)
  assume "abilityParamsSchema p0 = Some parsed \<and> lp_timeoutSeconds p0 = None"
  then show "lp_timeoutSeconds parsed = Some 60"
    by (auto simp: abilityParamsSchema_def split: if_splits)
next
  assume a: "Invoice_new w (lp_paymentRequest p) = Inr invoice
      \<and> connect w (lp_nwcUri p) m = (Inr (), m', calls)
      \<and> payInvoice w m' (lp_paymentRequest p) = (paymentPromise, calls')
      \<and> lp_timeoutSeconds p = Some timeoutSeconds \<and> timeoutSeconds \<noteq> 0
      \<and> (paymentPromise = Pending
          \<or> (\<exists>d r. paymentPromise = Settles d r
                 \<and> (setTimeout_delay (timeoutSeconds * 1000) < int d
                      \<or> 0 < timeoutSeconds \<and> timeoutSeconds * 1000 < int d)))"
  then have a1: "Invoice_new w (lp_paymentRequest p) = Inr invoice"
    and a2: "connect w (lp_nwcUri p) m = (Inr (), m', calls)"
    and a3: "payInvoice w m' (lp_paymentRequest p) = (paymentPromise, calls')"
    by simp_all
  from a have late: "paymentPromise = Pending
      \<or> (\<exists>d r. paymentPromise = Settles d r \<and> setTimeout_delay (timeoutSeconds * 1000) < int d)"
    using setTimeout_delay_le [of "timeoutSeconds * 1000"] by fastforce
  from a late have "await_payment (lp_timeoutSeconds p) paymentPromise = Some (Inl (JsError ''Payment timeout''))"
    by auto
  with a1 a2 a3 have "lp_execute_body w m p = Some (Inl (JsError ''Payment timeout''), m', calls @ calls')"
    by (rule lp_execute_body_not_paid)
  then show "lp_execute w m p =
        Some (Failure \<lparr>ef_error = ''Payment execution failed: Payment timeout'',
                        ef_reason = PAYMENT_FAILED,
                        ef_paymentHash = Some (di_paymentHash invoice)\<rparr>,
              m', calls @ calls')"
    using a1 by (simp add: lp_execute_def lp_execute_catch_def)
next
  assume a: "Invoice_new w3 (lp_paymentRequest p3) = Inr invoice3
      \<and> connect w3 (lp_nwcUri p3) m3 = (Inr (), m3', calls3)
      \<and> payInvoice w3 m3' (lp_paymentRequest p3) = (Pending, calls3')
      \<and> \<not> truthy_num (lp_timeoutSeconds p3)"
  then have a1: "Invoice_new w3 (lp_paymentRequest p3) = Inr invoice3"
    and a2: "connect w3 (lp_nwcUri p3) m3 = (Inr (), m3', calls3)"
    and a3: "payInvoice w3 m3' (lp_paymentRequest p3) = (Pending, calls3')"
    by simp_all
  from a have "await_payment (lp_timeoutSeconds p3) Pending = None"
    by (cases "lp_timeoutSeconds p3") auto
  with a1 a2 a3 have "lp_execute_body w3 m3 p3 = None"
    by (rule lp_execute_body_waits)
  then show "lp_execute w3 m3 p3 = None"
    by (simp add: lp_execute_def)
qed

theorem lp_execute_timeout_behaviour_witness:
  "abilityParamsSchema (example_lp_params\<lparr>lp_timeoutSeconds := None\<rparr>) = Some example_lp_params
   \<and> lp_timeoutSeconds example_lp_params = Some 60
   \<and> lp_execute slow_rail_world fresh_manager example_lp_params
       = Some (Failure \<lparr>ef_error = ''Payment execution failed: Payment timeout'',
                        ef_reason = PAYMENT_FAILED,
                        ef_paymentHash = Some ''1111111111111111111111111111111111111111111111111111111111111111''\<rparr>,
               connected_manager, [WGetInfo, WPayInvoice ''lnbc1500n1example''])
   \<and> lp_execute silent_rail_world fresh_manager (example_lp_params\<lparr>lp_timeoutSeconds := None\<rparr>) = None"
proof -
  have parse: "abilityParamsSchema (example_lp_params\<lparr>lp_timeoutSeconds := None\<rparr>) = Some example_lp_params"
    by (rule example_params_parse(2))
  have slow: "Invoice_new slow_rail_world (lp_paymentRequest example_lp_params) = Inr example_invoice
      \<and> connect slow_rail_world (lp_nwcUri example_lp_params) fresh_manager
           = (Inr (), connected_manager, [WGetInfo])
      \<and> payInvoice slow_rail_world connected_manager (lp_paymentRequest example_lp_params)
           = (Settles 61000 (Inr \<lparr>res_preimage = JsString ''0000000000000000000000000000000000000000000000000000000000000000'', res_amount = 0\<rparr>),
              [WPayInvoice ''lnbc1500n1example''])
      \<and> lp_timeoutSeconds example_lp_params = Some 60 \<and> (60::int) \<noteq> 0
      \<and> (Settles 61000 (Inr \<lparr>res_preimage = JsString ''0000000000000000000000000000000000000000000000000000000000000000'', res_amount = 0\<rparr>) = Pending
          \<or> (\<exists>d r. Settles 61000 (Inr \<lparr>res_preimage = JsString ''0000000000000000000000000000000000000000000000000000000000000000'', res_amount = 0\<rparr>) = Settles d r
                 \<and> (setTimeout_delay (60 * 1000) < int d \<or> (0::int) < 60 \<and> 60 * 1000 < int d)))"
    by (simp add: lp_example_defs connect_def payInvoice_def)
  have silent: "Invoice_new silent_rail_world
                  (lp_paymentRequest (example_lp_params\<lparr>lp_timeoutSeconds := None\<rparr>)) = Inr example_invoice
      \<and> connect silent_rail_world (lp_nwcUri (example_lp_params\<lparr>lp_timeoutSeconds := None\<rparr>)) fresh_manager
           = (Inr (), connected_manager, [WGetInfo])
      \<and> payInvoice silent_rail_world connected_manager
           (lp_paymentRequest (example_lp_params\<lparr>lp_timeoutSeconds := None\<rparr>))
           = (Pending, [WPayInvoice ''lnbc1500n1example''])
      \<and> \<not> truthy_num (lp_timeoutSeconds (example_lp_params\<lparr>lp_timeoutSeconds := None\<rparr>))"
    by (simp add: lp_example_defs connect_def payInvoice_def)
  show ?thesis
    using parse slow silent
      lp_execute_timeout_behaviour
        [of "example_lp_params\<lparr>lp_timeoutSeconds := None\<rparr>" example_lp_params
            slow_rail_world example_lp_params example_invoice fresh_manager connected_manager
            "[WGetInfo]"
            "Settles 61000 (Inr \<lparr>res_preimage = JsString ''0000000000000000000000000000000000000000000000000000000000000000'', res_amount = 0\<rparr>)"
            "[WPayInvoice ''lnbc1500n1example'']" 60
            silent_rail_world "example_lp_params\<lparr>lp_timeoutSeconds := None\<rparr>" example_invoice
            fresh_manager connected_manager "[WGetInfo]" "[WPayInvoice ''lnbc1500n1example'']"]
    by (simp add: example_invoice_def)
qed

text \<open>
  C7 as stated fails: the ability is called without \<open>timeoutSeconds\<close> and the rail would pay
  after 61 seconds; the call does not wait for it but fails with \<open>Payment timeout\<close>.
\<close>

theorem lp_default_timeout_counterexample:
  "lp_timeoutSeconds (example_lp_params\<lparr>lp_timeoutSeconds := None\<rparr>) = None
   \<and> vincentAbility_execute slow_rail_world fresh_manager (example_lp_params\<lparr>lp_timeoutSeconds := None\<rparr>)
       = Inr (Some (Failure \<lparr>ef_error = ''Payment execution failed: Payment timeout'',
                             ef_reason = PAYMENT_FAILED,
                             ef_paymentHash = Some ''1111111111111111111111111111111111111111111111111111111111111111''\<rparr>,
                    connected_manager, [WGetInfo, WPayInvoice ''lnbc1500n1example'']))"
proof -
  have parse: "abilityParamsSchema (example_lp_params\<lparr>lp_timeoutSeconds := None\<rparr>) = Some example_lp_params"
    by (rule example_params_parse(2))
  have run: "lp_execute slow_rail_world fresh_manager example_lp_params
       = Some (Failure \<lparr>ef_error = ''Payment execution failed: Payment timeout'',
                        ef_reason = PAYMENT_FAILED,
                        ef_paymentHash = Some ''1111111111111111111111111111111111111111111111111111111111111111''\<rparr>,
               connected_manager, [WGetInfo, WPayInvoice ''lnbc1500n1example''])"
    by (simp add: lp_example_defs lp_handler_defs)
  show ?thesis
    by (simp add: vincentAbility_execute_def parse run executeFailSchema_def)
qed

subsection \<open>The exported helper\<close>

text \<open>
  C9. \<open>verifyPreimage\<close> returns true if and only if both arguments are strings of 64
  hexadecimal characters. Its result does not depend on the digest: for the preimage
  \<open>00\<dots>0\<close> it is true both for the expected hash that is the SHA-256 digest of the preimage
  and for the expected hash \<open>11\<dots>1\<close>, which is not.
\<close>

theorem verifyPreimage_checks_format_only:
  "(verifyPreimage preimage expectedHash \<longleftrightarrow>
      length preimage = 64 \<and> list_all is_hex_char preimage
      \<and> length expectedHash = 64 \<and> list_all is_hex_char expectedHash)
   \<and> verifyPreimage ''0000000000000000000000000000000000000000000000000000000000000000''
        (sha256_hex ''0000000000000000000000000000000000000000000000000000000000000000'')
   \<and> verifyPreimage ''0000000000000000000000000000000000000000000000000000000000000000''
        ''1111111111111111111111111111111111111111111111111111111111111111''
   \<and> sha256_hex ''0000000000000000000000000000000000000000000000000000000000000000''
        \<noteq> ''1111111111111111111111111111111111111111111111111111111111111111''"
proof (intro conjI)
  show "verifyPreimage preimage expectedHash \<longleftrightarrow>
      length preimage = 64 \<and> list_all is_hex_char preimage
      \<and> length expectedHash = 64 \<and> list_all is_hex_char expectedHash"
    by (auto simp: verifyPreimage_def hexRegex_test_def)
next
  show "verifyPreimage ''0000000000000000000000000000000000000000000000000000000000000000''
        (sha256_hex ''0000000000000000000000000000000000000000000000000000000000000000'')"
    unfolding sha256_hex_zero_preimage
    by (simp add: verifyPreimage_def hexRegex_test_def is_hex_char_def)
next
  show "verifyPreimage ''0000000000000000000000000000000000000000000000000000000000000000''
        ''1111111111111111111111111111111111111111111111111111111111111111''"
    by (simp add: verifyPreimage_def hexRegex_test_def is_hex_char_def)
next
  show "sha256_hex ''0000000000000000000000000000000000000000000000000000000000000000''
        \<noteq> ''1111111111111111111111111111111111111111111111111111111111111111''"
    unfolding sha256_hex_zero_preimage by simp
qed

theorem verifyPreimage_checks_format_only_witness:
  "\<not> verifyPreimage ''0000000000000000000000000000000000000000000000000000000000000000'' ''preimage''
   \<and> verifyPreimage ''0000000000000000000000000000000000000000000000000000000000000000''
        ''1111111111111111111111111111111111111111111111111111111111111111''"
  using verifyPreimage_checks_format_only
    [of "''0000000000000000000000000000000000000000000000000000000000000000''" "''preimage''"]
  by simp



section \<open>Properties of the Lock Step\<close>

subsection \<open>Auxiliary facts\<close>

lemma htlc_execute_failure_reason:
  "fst (htlc_execute w d p) = Failure f \<Longrightarrow> hf_reason f = TRANSACTION_FAILED"
  by (auto simp: htlc_execute_def split: prod.splits sum.splits)

lemma htlc_precheck_reads_no_state_change:
  "\<not> list_ex state_changing (snd (htlc_precheck_reads w d p))"
  by (auto simp: htlc_precheck_reads_def Let_def split: sum.splits)

lemma htlc_precheck_no_state_change:
  "\<not> list_ex state_changing (snd (htlc_precheck w d p))"
proof -
  have "snd (htlc_precheck w d p) = [] \<or> snd (htlc_precheck w d p) = snd (htlc_precheck_reads w d p)"
    by (auto simp: htlc_precheck_def Let_def split: sum.splits prod.splits)
  then show ?thesis
    using htlc_precheck_reads_no_state_change [of w d p] by auto
qed

lemma htlc_execute_body_submits:
  assumes "encodeFunctionData w (hp_paymentHash p) (hp_timelock p) (hp_tokenAddress p) (hp_amount p) = Inr data"
    and "getTransactionCount w = Inr nonce"
    and "getGasPrice w = Inr gasPrice"
    and "estimateGas w = Inr estimatedGas"
  shows "ContractCall (publicKey d) (ethAddress d) (hp_htlcContractAddress p) ''createHTLCToken''
           (hp_paymentHash p, hp_timelock p, hp_tokenAddress p, hp_amount p) (hp_chainId p)
         \<in> set (snd (htlc_execute_body w d p))"
  using assms by (auto simp: htlc_execute_body_def Let_def split: sum.splits option.splits)

lemma snd_htlc_execute: "snd (htlc_execute w d p) = snd (htlc_execute_body w d p)"
  by (auto simp: htlc_execute_def split: prod.splits sum.splits)

lemma htlc_execute_success_body:
  "htlc_execute w d p = (Success r, calls) \<longleftrightarrow> htlc_execute_body w d p = (Inr r, calls)"
  by (auto simp: htlc_execute_def split: prod.splits sum.splits)

lemma htlc_execute_body_contractId:
  assumes "htlc_execute_body w d p = (Inr r, calls)"
  shows "keccak256_solidityPack w (ethAddress d) (hp_tokenAddress p) (hp_amount p)
           (hp_paymentHash p) (hp_timelock p) (hw_Date_now w div 1000) = Inr (hes_contractId r)"
  using assms
  by (auto simp: htlc_execute_body_def Let_def split: sum.splits option.splits if_splits)

lemma htlc_execute_body_other_receipt:
  assumes "htlc_execute_body w d p = (Inr r, calls)"
    and "rc_status receipt' \<noteq> Some 0"
  shows "htlc_execute_body (w\<lparr>waitForTransaction := Inr (Some receipt')\<rparr>) d p
           = (Inr (r\<lparr>hes_blockNumber := rc_blockNumber receipt'\<rparr>), calls)"
  using assms
  by (auto simp: htlc_execute_body_def Let_def split: sum.splits option.splits if_splits)

text \<open>How execute arrives at \<open>contractId\<close>: it is the library value for the user's address,
  the token address, the amount, the payment hash, the timelock and the local clock in
  seconds; the receipt's logs play no part, so another receipt that is not marked failed
  leaves it unchanged.\<close>

lemma htlc_contractId_computed_locally:
  "(htlc_execute w d p = (Success r, calls) \<longrightarrow>
      keccak256_solidityPack w (ethAddress d) (hp_tokenAddress p) (hp_amount p)
        (hp_paymentHash p) (hp_timelock p) (hw_Date_now w div 1000) = Inr (hes_contractId r))
   \<and> (htlc_execute w d p = (Success r, calls) \<and> rc_status receipt' \<noteq> Some 0 \<longrightarrow>
      htlc_execute (w\<lparr>waitForTransaction := Inr (Some receipt')\<rparr>) d p
        = (Success (r\<lparr>hes_blockNumber := rc_blockNumber receipt'\<rparr>), calls))"
proof (intro conjI impI)
  assume "htlc_execute w d p = (Success r, calls)"
  then have "htlc_execute_body w d p = (Inr r, calls)"
    by (simp add: htlc_execute_success_body)
  then show "keccak256_solidityPack w (ethAddress d) (hp_tokenAddress p) (hp_amount p)
        (hp_paymentHash p) (hp_timelock p) (hw_Date_now w div 1000) = Inr (hes_contractId r)"
    by (rule htlc_execute_body_contractId)
next
  assume a: "htlc_execute w d p = (Success r, calls) \<and> rc_status receipt' \<noteq> Some 0"
  then have "htlc_execute_body w d p = (Inr r, calls)"
    by (simp add: htlc_execute_success_body)
  with a have "htlc_execute_body (w\<lparr>waitForTransaction := Inr (Some receipt')\<rparr>) d p
           = (Inr (r\<lparr>hes_blockNumber := rc_blockNumber receipt'\<rparr>), calls)"
    by (intro htlc_execute_body_other_receipt) auto
  then show "htlc_execute (w\<lparr>waitForTransaction := Inr (Some receipt')\<rparr>) d p
        = (Success (r\<lparr>hes_blockNumber := rc_blockNumber receipt'\<rparr>), calls)"
    by (simp add: htlc_execute_success_body)
qed

lemmas htlc_example_defs =
  example_htlc_world_def example_htlc_params_def example_delegation_def example_receipt_def
  mock_receipt_world_def block_second_world_def example_encodeFunctionData_def
  example_keccak256_solidityPack_def

subsection \<open>The timelock\<close>

text \<open>
  C2, as the code has it. With a supported chain id and a well-formed payment hash, the
  precheck of the Lock Step fails with \<open>INVALID_TIMELOCK\<close> for every \<open>timelock \<le> now\<close>, without
  sending any request to the ledger; the precheck never sends the state-changing request.
  The execute handler does not compare \<open>timelock\<close> with the clock: each of its failures
  carries \<open>TRANSACTION_FAILED\<close>, and once the call data is encoded and the three reads have
  succeeded it submits \<open>createHTLCToken\<close>, whatever the timelock.
\<close>

theorem htlc_timelock_check:
  "(hp_chainId p \<in> {295, 296, 297} \<and> paymentHash_format_ok (hp_paymentHash p)
      \<and> hp_timelock p \<le> hw_Date_now w div 1000 \<longrightarrow>
      htlc_precheck w d p =
        (Failure \<lparr>hf_error = ''Timelock ('' @ show_int (hp_timelock p)
                              @ '') must be in the future (current: ''
                              @ show_int (hw_Date_now w div 1000) @ '')'',
                  hf_reason = INVALID_TIMELOCK\<rparr>, []))
   \<and> \<not> list_ex state_changing (snd (htlc_precheck w d p))
   \<and> (\<forall>f. fst (htlc_execute w d p) = Failure f \<longrightarrow> hf_reason f = TRANSACTION_FAILED)
   \<and> (encodeFunctionData w (hp_paymentHash p) (hp_timelock p) (hp_tokenAddress p) (hp_amount p) = Inr data
      \<and> getTransactionCount w = Inr nonce \<and> getGasPrice w = Inr gasPrice
      \<and> estimateGas w = Inr estimatedGas \<longrightarrow>
      ContractCall (publicKey d) (ethAddress d) (hp_htlcContractAddress p) ''createHTLCToken''
          (hp_paymentHash p, hp_timelock p, hp_tokenAddress p, hp_amount p) (hp_chainId p)
        \<in> set (snd (htlc_execute w d p)))"
proof (intro conjI impI allI)
  assume "hp_chainId p \<in> {295, 296, 297} \<and> paymentHash_format_ok (hp_paymentHash p)
      \<and> hp_timelock p \<le> hw_Date_now w div 1000"
  then show "htlc_precheck w d p =
        (Failure \<lparr>hf_error = ''Timelock ('' @ show_int (hp_timelock p)
                              @ '') must be in the future (current: ''
                              @ show_int (hw_Date_now w div 1000) @ '')'',
                  hf_reason = INVALID_TIMELOCK\<rparr>, [])"
    by (auto simp: htlc_precheck_def getHederaNetwork_def Let_def)
next
  show "\<not> list_ex state_changing (snd (htlc_precheck w d p))"
    by (rule htlc_precheck_no_state_change)
next
  fix f assume "fst (htlc_execute w d p) = Failure f"
  then show "hf_reason f = TRANSACTION_FAILED"
    by (rule htlc_execute_failure_reason)
next
  assume "encodeFunctionData w (hp_paymentHash p) (hp_timelock p) (hp_tokenAddress p) (hp_amount p) = Inr data
      \<and> getTransactionCount w = Inr nonce \<and> getGasPrice w = Inr gasPrice
      \<and> estimateGas w = Inr estimatedGas"
  then show "ContractCall (publicKey d) (ethAddress d) (hp_htlcContractAddress p) ''createHTLCToken''
          (hp_paymentHash p, hp_timelock p, hp_tokenAddress p, hp_amount p) (hp_chainId p)
        \<in> set (snd (htlc_execute w d p))"
    unfolding snd_htlc_execute by (intro htlc_execute_body_submits) auto
qed


theorem htlc_timelock_check_witness:
  "htlc_precheck mock_receipt_world example_delegation (example_htlc_params\<lparr>hp_timelock := 1699999995\<rparr>)
     = (Failure \<lparr>hf_error = ''Timelock (1699999995) must be in the future (current: 1700000005)'',
                 hf_reason = INVALID_TIMELOCK\<rparr>, [])
   \<and> ContractCall ''0x04abcdef1234567890abcdef1234567890abcdef1234567890abcdef1234567890abcdef1234567890abcdef1234567890abcdef1234567890abcdef1234567890''
         ''0xAbCdEf1234567890123456789012345678901234'' ''0x1234567890123456789012345678901234567890'' ''createHTLCToken''
         (''0x1111111111111111111111111111111111111111111111111111111111111111'', 1699999995, ''0x0987654321098765432109876543210987654321'', ''1000000000000000000'') 296
       \<in> set (snd (htlc_execute mock_receipt_world example_delegation
                      (example_htlc_params\<lparr>hp_timelock := 1699999995\<rparr>)))"
proof -
  have digits: "show_int 1699999995 = ''1699999995''" "show_int 1700000005 = ''1700000005''"
    by (simp_all add: show_int_def show_nat.simps digit_char_def)
  have now: "hw_Date_now mock_receipt_world div 1000 = 1700000005"
    by (simp add: htlc_example_defs)
  have pre: "hp_chainId (example_htlc_params\<lparr>hp_timelock := 1699999995\<rparr>) \<in> {295, 296, 297}
      \<and> paymentHash_format_ok (hp_paymentHash (example_htlc_params\<lparr>hp_timelock := 1699999995\<rparr>))
      \<and> hp_timelock (example_htlc_params\<lparr>hp_timelock := 1699999995\<rparr>)
           \<le> hw_Date_now mock_receipt_world div 1000"
    by (simp add: now) (simp add: example_htlc_params_def paymentHash_format_ok_def startsWith_def
        is_hex_char_def)
  have reads: "encodeFunctionData mock_receipt_world
                 (hp_paymentHash (example_htlc_params\<lparr>hp_timelock := 1699999995\<rparr>))
                 (hp_timelock (example_htlc_params\<lparr>hp_timelock := 1699999995\<rparr>))
                 (hp_tokenAddress (example_htlc_params\<lparr>hp_timelock := 1699999995\<rparr>))
                 (hp_amount (example_htlc_params\<lparr>hp_timelock := 1699999995\<rparr>))
               = Inr (''0x88890003''
                  @ ''1111111111111111111111111111111111111111111111111111111111111111''
                  @ ''000000000000000000000000000000000000000000000000000000006553f0fb''
                  @ ''0000000000000000000000000987654321098765432109876543210987654321''
                  @ ''0000000000000000000000000000000000000000000000000de0b6b3a7640000'')
      \<and> getTransactionCount mock_receipt_world = Inr 0
      \<and> getGasPrice mock_receipt_world = Inr 1000000000
      \<and> estimateGas mock_receipt_world = Inr 100000"
    by (simp add: htlc_example_defs)
  show ?thesis
    using pre reads
      htlc_timelock_check
        [of "example_htlc_params\<lparr>hp_timelock := 1699999995\<rparr>" mock_receipt_world example_delegation
            "(''0x88890003''
                  @ ''1111111111111111111111111111111111111111111111111111111111111111''
                  @ ''000000000000000000000000000000000000000000000000000000006553f0fb''
                  @ ''0000000000000000000000000987654321098765432109876543210987654321''
                  @ ''0000000000000000000000000000000000000000000000000de0b6b3a7640000'')" 0 1000000000 100000]
    by (simp add: now digits) (simp add: example_htlc_params_def example_delegation_def)
qed

text \<open>
  C2 as stated fails for execute: with \<open>timelock = now - 10\<close> and a ledger that answers as
  the unit tests' provider does, execute submits \<open>createHTLCToken\<close> and reports success.
\<close>

theorem htlc_execute_past_timelock_counterexample:
  "(1699999995::int) \<le> hw_Date_now mock_receipt_world div 1000
   \<and> htlc_execute mock_receipt_world example_delegation (example_htlc_params\<lparr>hp_timelock := 1699999995\<rparr>)
     = (Success \<lparr>hes_contractId = ''0xca5ce403962b5dccd8c4c85ad4e2ae448569cded22fc52ab35b485a317964a41'',
                 hes_txHash = ''0xtxhash123456789'',
                 hes_paymentHash = ''0x1111111111111111111111111111111111111111111111111111111111111111'',
                 hes_amount = ''1000000000000000000'',
                 hes_timelock = 1699999995,
                 hes_blockNumber = 12345\<rparr>,
        [GetTransactionCount ''0xAbCdEf1234567890123456789012345678901234'',
         GetGasPrice,
         EstimateGas ''0xAbCdEf1234567890123456789012345678901234'' ''0x1234567890123456789012345678901234567890''
           (''0x88890003''
                @ ''1111111111111111111111111111111111111111111111111111111111111111''
                @ ''000000000000000000000000000000000000000000000000000000006553f0fb''
                @ ''0000000000000000000000000987654321098765432109876543210987654321''
                @ ''0000000000000000000000000000000000000000000000000de0b6b3a7640000''),
         ContractCall ''0x04abcdef1234567890abcdef1234567890abcdef1234567890abcdef1234567890abcdef1234567890abcdef1234567890abcdef1234567890abcdef1234567890''
           ''0xAbCdEf1234567890123456789012345678901234'' ''0x1234567890123456789012345678901234567890'' ''createHTLCToken''
           (''0x1111111111111111111111111111111111111111111111111111111111111111'', 1699999995, ''0x0987654321098765432109876543210987654321'', ''1000000000000000000'') 296,
         WaitForTransaction ''0xtxhash123456789'' 1])"
  by (simp add: htlc_example_defs htlc_execute_def htlc_execute_body_def Let_def)

subsection \<open>The contract identifier\<close>

text \<open>
  C3. When execute reports success, the \<open>contractId\<close> it returns is to be the identifier the
  ledger assigned to the new lock, the one the lock-created event of the confirmed
  transaction carries. The handler does not read the event: it derives the identifier
  itself (lines 218-225, \<open>same logic as HTLC contract\<close>), with its local clock in the place of
  the block time. The ledger confirms the lock with the identifier \<open>0x3eb9\<dots>\<close>, derived with
  the block time 1700000003. When the local clock is in that second, execute returns that
  identifier; when the local clock reads 1700000005, execute reports success with
  \<open>0x8f7c\<dots>\<close>, an identifier under which the ledger holds no lock.
\<close>

theorem htlc_contractId_depends_on_local_clock:
  "waitForTransaction example_htlc_world = Inr (Some example_receipt)
   \<and> event_contractId example_receipt
       = Some ''0x3eb9a9df8527d59594928d6ee75311c51b5a5763c82f11a1f202661205e9eca7''
   \<and> hw_Date_now example_htlc_world div 1000 = 1700000005
   \<and> htlc_execute example_htlc_world example_delegation example_htlc_params
     = (Success \<lparr>hes_contractId = ''0x8f7c42a1ecae6880279ea8b608dbc0979cca4d9448404572a9d0e25953562337'',
                 hes_txHash = ''0xtxhash123456789'',
                 hes_paymentHash = ''0x1111111111111111111111111111111111111111111111111111111111111111'',
                 hes_amount = ''1000000000000000000'',
                 hes_timelock = 1700086400,
                 hes_blockNumber = 12345\<rparr>,
        [GetTransactionCount ''0xAbCdEf1234567890123456789012345678901234'',
         GetGasPrice,
         EstimateGas ''0xAbCdEf1234567890123456789012345678901234'' ''0x1234567890123456789012345678901234567890''
           (''0x88890003''
                @ ''1111111111111111111111111111111111111111111111111111111111111111''
                @ ''0000000000000000000000000000000000000000000000000000000065554280''
                @ ''0000000000000000000000000987654321098765432109876543210987654321''
                @ ''0000000000000000000000000000000000000000000000000de0b6b3a7640000''),
         ContractCall ''0x04abcdef1234567890abcdef1234567890abcdef1234567890abcdef1234567890abcdef1234567890abcdef1234567890abcdef1234567890abcdef1234567890''
           ''0xAbCdEf1234567890123456789012345678901234'' ''0x1234567890123456789012345678901234567890'' ''createHTLCToken''
           (''0x1111111111111111111111111111111111111111111111111111111111111111'', 1700086400, ''0x0987654321098765432109876543210987654321'', ''1000000000000000000'') 296,
         WaitForTransaction ''0xtxhash123456789'' 1])
   \<and> ''0x8f7c42a1ecae6880279ea8b608dbc0979cca4d9448404572a9d0e25953562337''
       \<noteq> ''0x3eb9a9df8527d59594928d6ee75311c51b5a5763c82f11a1f202661205e9eca7''
   \<and> waitForTransaction block_second_world = Inr (Some example_receipt)
   \<and> hw_Date_now block_second_world div 1000 = 1700000003
   \<and> htlc_execute block_second_world example_delegation example_htlc_params
     = (Success \<lparr>hes_contractId = ''0x3eb9a9df8527d59594928d6ee75311c51b5a5763c82f11a1f202661205e9eca7'',
                 hes_txHash = ''0xtxhash123456789'',
                 hes_paymentHash = ''0x1111111111111111111111111111111111111111111111111111111111111111'',
                 hes_amount = ''1000000000000000000'',
                 hes_timelock = 1700086400,
                 hes_blockNumber = 12345\<rparr>,
        [GetTransactionCount ''0xAbCdEf1234567890123456789012345678901234'',
         GetGasPrice,
         EstimateGas ''0xAbCdEf1234567890123456789012345678901234'' ''0x1234567890123456789012345678901234567890''
           (''0x88890003''
                @ ''1111111111111111111111111111111111111111111111111111111111111111''
                @ ''0000000000000000000000000000000000000000000000000000000065554280''
                @ ''0000000000000000000000000987654321098765432109876543210987654321''
                @ ''0000000000000000000000000000000000000000000000000de0b6b3a7640000''),
         ContractCall ''0x04abcdef1234567890abcdef1234567890abcdef1234567890abcdef1234567890abcdef1234567890abcdef1234567890abcdef1234567890abcdef1234567890''
           ''0xAbCdEf1234567890123456789012345678901234'' ''0x1234567890123456789012345678901234567890'' ''createHTLCToken''
           (''0x1111111111111111111111111111111111111111111111111111111111111111'', 1700086400, ''0x0987654321098765432109876543210987654321'', ''1000000000000000000'') 296,
         WaitForTransaction ''0xtxhash123456789'' 1])"
  by (simp add: htlc_example_defs htlc_execute_def htlc_execute_body_def Let_def
      event_contractId_def HTLCCreated_topic_def)

end
